theory Spec2Isabelle
  imports Main "HOL-Library.Word" "HOL-Library.Sublist"
begin

unbundle bit_operations_syntax

section \<open>The gopathfs router: data model\<close>

text \<open>
  The package \<open>gopathfs\<close> (files \<open>dir.go\<close> and \<open>file.go\<close>) routes every operation
  on a virtual path to one or more directories of the backing file system. The model
  follows the Go code function by function. The native file system is a parameter:
  a record of the calls the code makes into \<open>os\<close>, \<open>unix\<close> and \<open>path/filepath\<close>,
  over a state \<open>'s\<close> of the backing store.
\<close>

text \<open>\<open>fuse.Status\<close>, restricted to the values the two files return.\<close>

datatype Status = OK | ENOENT | EPERM | EIO | ENOSYS

text \<open>\<open>os.FileInfo\<close>: the code reads \<open>Name()\<close> and \<open>IsDir()\<close> only.\<close>

record FileInfo =
  fiName :: string
  IsDir :: bool

text \<open>\<open>fuse.DirEntry\<close>; \<open>Mode\<close> is a \<open>uint32\<close>.\<close>

record DirEntry =
  Name :: string
  Mode :: "32 word"

definition S_IFDIR :: "32 word" where
  "S_IFDIR = 0x4000"

definition S_IFREG :: "32 word" where
  "S_IFREG = 0x8000"

text \<open>
  \<open>fuse.O_ANYWRITE\<close> is \<open>O_WRONLY | O_RDWR | O_APPEND | O_CREAT | O_TRUNC\<close>
  (Linux values \<open>1\<close>, \<open>2\<close>, \<open>0x400\<close>, \<open>0x40\<close>, \<open>0x200\<close>).
\<close>

definition O_ANYWRITE :: "32 word" where
  "O_ANYWRITE = 0x643"

definition O_RDONLY :: "32 word" where
  "O_RDONLY = 0"

definition O_WRONLY :: "32 word" where
  "O_WRONLY = 1"

text \<open>The result of \<open>os.Stat\<close>: a file info, or an error that \<open>os.IsNotExist\<close>
  accepts, or another error.\<close>

datatype StatResult = StatOK FileInfo | StatNotExist | StatErr

text \<open>\<open>nodefs.NewLoopbackFile(f)\<close>: the handle of the backing path that was opened.\<close>

datatype File = LoopbackFile string

text \<open>
  The configuration \<open>gpf.cfg\<close> and the directories \<open>gpf.dirs\<close>. The set
  \<open>FallThroughSet\<close> is a Go \<open>map[string]struct{}\<close>; a \<open>nil\<close> map is the empty set.
\<close>

record Cfg =
  GoPkgPrefix :: string
  Vendors :: "string list"
  FallThrough :: "string list"
  FallThroughSet :: "string set"

record Dirs =
  Workspace :: string
  GoSDKDir :: string

text \<open>
  \<open>GoPathFs\<close>. The methods \<open>isIgnored\<close> and \<open>isVendorDir\<close> are called by
  \<open>openFirstPartyDir\<close> and declared in a file that is not among the two sources: they are
  parameters of the model. The flag \<open>debug\<close> only switches printing on and is left out.
\<close>

record GoPathFs =
  cfg :: Cfg
  dirs :: Dirs
  isIgnored :: "string \<Rightarrow> bool"
  isVendorDir :: "string \<Rightarrow> bool"

text \<open>
  The native layer. A call that only reads takes the state; a call that may change the
  backing store returns the new state. A \<open>bool\<close> result is \<open>True\<close> when the Go call
  returns a \<open>nil\<close> error.
  \<^item> \<open>os_Open\<close> and \<open>Readdir\<close>: \<open>os.Open(dir)\<close> and \<open>h.Readdir(-1)\<close>;
  \<^item> \<open>os_Stat\<close>: \<open>os.Stat\<close>;
  \<^item> \<open>unix_Access_W\<close>: \<open>unix.Access(name, unix.W_OK) == nil\<close>;
  \<^item> \<open>os_OpenFile\<close>: whether \<open>os.OpenFile(name, flags, 0)\<close> succeeds. \<open>Open\<close> returns
    at its first success, and a failed attempt leaves the store as it was, so the result of
    \<open>Open\<close> depends on the state at entry only; what a successful open with
    \<open>O_CREAT\<close> or \<open>O_TRUNC\<close> does to the store is outside the model;
  \<^item> \<open>path_absent\<close>: no file, directory or link of that name exists;
  \<^item> \<open>removeAll_present\<close>: \<open>os.RemoveAll\<close> on a name that exists;
  \<^item> \<open>os_MkdirAll\<close>, \<open>os_Create\<close>, \<open>os_Chmod\<close>, \<open>os_Remove\<close>,
    \<open>os_Rename\<close>: the calls of the same names.
\<close>

record 's Native =
  os_Open :: "'s \<Rightarrow> string \<Rightarrow> bool"
  Readdir :: "'s \<Rightarrow> string \<Rightarrow> FileInfo list option"
  os_Stat :: "'s \<Rightarrow> string \<Rightarrow> StatResult"
  unix_Access_W :: "'s \<Rightarrow> string \<Rightarrow> bool"
  os_OpenFile :: "'s \<Rightarrow> string \<Rightarrow> 32 word \<Rightarrow> bool"
  path_absent :: "'s \<Rightarrow> string \<Rightarrow> bool"
  removeAll_present :: "string \<Rightarrow> 's \<Rightarrow> bool \<times> 's"
  os_MkdirAll :: "string \<Rightarrow> 32 word \<Rightarrow> 's \<Rightarrow> bool \<times> 's"
  os_Create :: "string \<Rightarrow> 's \<Rightarrow> bool \<times> 's"
  os_Chmod :: "string \<Rightarrow> 32 word \<Rightarrow> 's \<Rightarrow> bool \<times> 's"
  os_Remove :: "string \<Rightarrow> 's \<Rightarrow> bool \<times> 's"
  os_Rename :: "string \<Rightarrow> string \<Rightarrow> 's \<Rightarrow> bool \<times> 's"

text \<open>
  \<open>os.RemoveAll\<close>, by its documentation: it removes the path and any children it
  contains, and "if the path does not exist, RemoveAll returns nil (no error)".
\<close>

definition os_RemoveAll :: "'s Native \<Rightarrow> string \<Rightarrow> 's \<Rightarrow> bool \<times> 's" where
  "os_RemoveAll os p s = (if path_absent os s p then (True, s) else removeAll_present os p s)"

section \<open>Strings and paths\<close>

text \<open>\<open>strings.HasPrefix(s, prefix)\<close>. A Go string is a sequence of bytes, as \<open>string\<close> is.\<close>

definition HasPrefix :: "string \<Rightarrow> string \<Rightarrow> bool" where
  "HasPrefix s pre = (take (length pre) s = pre)"

text \<open>Modelled from the spec: the constant \<open>pathSeparator\<close> of the package is declared
  outside the two source files; the spec writes the separator as \<open>"/"\<close>, and \<open>dir.go\<close> uses
  that literal where \<open>file.go\<close> uses the constant.\<close>

definition pathSeparator :: string where
  "pathSeparator = ''/''"

text \<open>
  \<open>filepath.Join\<close> and \<open>filepath.Clean\<close> of the Go library, for slash-separated paths.
  \<open>Clean\<close> collapses repeated separators, drops \<open>.\<close> elements, cancels an inner
  \<open>..\<close> against the element before it, drops \<open>..\<close> at the start of a rooted path, and
  returns \<open>.\<close> for an empty result. \<open>Join\<close> skips leading empty elements, joins the
  rest with the separator and cleans the result; with no non-empty element it returns the
  empty string.
\<close>

fun splitSep :: "string \<Rightarrow> string list" where
  "splitSep [] = [[]]"
| "splitSep (c # cs) =
     (if c = CHR ''/'' then [] # splitSep cs
      else (case splitSep cs of [] \<Rightarrow> [[c]] | w # ws \<Rightarrow> (c # w) # ws))"

text \<open>The elements kept so far are held in reverse order.\<close>

fun cleanElems :: "bool \<Rightarrow> string list \<Rightarrow> string list \<Rightarrow> string list" where
  "cleanElems rooted acc [] = rev acc"
| "cleanElems rooted acc (e # es) =
     (if e = [] \<or> e = ''.'' then cleanElems rooted acc es
      else if e = ''..'' then
        (case acc of
           [] \<Rightarrow> (if rooted then cleanElems rooted [] es else cleanElems rooted [e] es)
         | a # as \<Rightarrow> (if a = ''..'' then cleanElems rooted (e # acc) es
                      else cleanElems rooted as es))
      else cleanElems rooted (e # acc) es)"

fun joinSep :: "string list \<Rightarrow> string" where
  "joinSep [] = []"
| "joinSep [e] = e"
| "joinSep (e # es) = e @ ''/'' @ joinSep es"

definition Clean :: "string \<Rightarrow> string" where
  "Clean p =
     (let rooted = HasPrefix p ''/'';
          out = (if rooted then ''/'' else []) @ joinSep (cleanElems rooted [] (splitSep p))
      in if out = [] then ''.'' else out)"

definition Join :: "string list \<Rightarrow> string" where
  "Join elem =
     (case dropWhile (\<lambda>e. e = []) elem of
        [] \<Rightarrow> []
      | e # es \<Rightarrow> Clean (joinSep (e # es)))"

section \<open>Directories (dir.go)\<close>

text \<open>
  The inner loop of \<open>openUnderlyingDir\<close>, over the entries accumulated so far: the
  result is \<open>True\<close> when the loop leaves by \<open>continue outterLoop\<close>. The lookup in
  \<open>excludes\<close> stands inside the loop body, so it is reached only when there is an entry
  to visit.
\<close>

fun innerLoop :: "string \<Rightarrow> string set \<Rightarrow> DirEntry list \<Rightarrow> bool" where
  "innerLoop n excludes [] = False"
| "innerLoop n excludes (e # es) =
     (if n = Name e then True
      else if n \<in> excludes then True
      else innerLoop n excludes es)"

definition newEntry :: "FileInfo \<Rightarrow> DirEntry" where
  "newEntry fi = \<lparr>Name = fiName fi, Mode = (if IsDir fi then S_IFDIR else S_IFREG)\<rparr>"

text \<open>The loop \<open>outterLoop\<close> over the file infos read from the directory.\<close>

fun outterLoop :: "string set \<Rightarrow> FileInfo list \<Rightarrow> DirEntry list \<Rightarrow> DirEntry list" where
  "outterLoop excludes [] entries = entries"
| "outterLoop excludes (fi # fis) entries =
     (if IsDir fi \<and> innerLoop (fiName fi) excludes entries
      then outterLoop excludes fis entries
      else outterLoop excludes fis (entries @ [newEntry fi]))"

definition openUnderlyingDir ::
  "'s Native \<Rightarrow> 's \<Rightarrow> string \<Rightarrow> string set \<Rightarrow> DirEntry list \<Rightarrow> DirEntry list \<times> Status" where
  "openUnderlyingDir os s dir excludes entries =
     (if \<not> os_Open os s dir then (entries, ENOENT)
      else (case Readdir os s dir of
              None \<Rightarrow> (entries, ENOENT)
            | Some fis \<Rightarrow> (outterLoop excludes fis entries, OK)))"

text \<open>\<open>openTopDir\<close>: its first loop, over the vendors, drops the status of each call.\<close>

fun topVendors ::
  "GoPathFs \<Rightarrow> 's Native \<Rightarrow> 's \<Rightarrow> string list \<Rightarrow> DirEntry list \<Rightarrow> DirEntry list" where
  "topVendors gpf os s [] entries = entries"
| "topVendors gpf os s (vendor # vs) entries =
     topVendors gpf os s vs
       (fst (openUnderlyingDir os s (Join [Workspace (dirs gpf), vendor])
               (FallThroughSet (cfg gpf)) entries))"

text \<open>Its second loop, over the fall-through directories.\<close>

fun topFallThrough ::
  "GoPathFs \<Rightarrow> 's Native \<Rightarrow> 's \<Rightarrow> string list \<Rightarrow> DirEntry list \<Rightarrow> DirEntry list" where
  "topFallThrough gpf os s [] entries = entries"
| "topFallThrough gpf os s (dir # ds) entries =
     (case os_Stat os s (Join [Workspace (dirs gpf), dir]) of
        StatOK fi \<Rightarrow> topFallThrough gpf os s ds (entries @ [newEntry fi])
      | _ \<Rightarrow> topFallThrough gpf os s ds entries)"

definition openTopDir :: "GoPathFs \<Rightarrow> 's Native \<Rightarrow> 's \<Rightarrow> DirEntry list \<times> Status" where
  "openTopDir gpf os s =
     (let entries = [\<lparr>Name = GoPkgPrefix (cfg gpf), Mode = S_IFDIR\<rparr>];
          entries = topVendors gpf os s (Vendors (cfg gpf)) entries;
          entries = topFallThrough gpf os s (FallThrough (cfg gpf)) entries
      in (entries, OK))"

fun firstPartyLoop :: "GoPathFs \<Rightarrow> FileInfo list \<Rightarrow> DirEntry list \<Rightarrow> DirEntry list" where
  "firstPartyLoop gpf [] entries = entries"
| "firstPartyLoop gpf (fi # fis) entries =
     (if isIgnored gpf (fiName fi) then firstPartyLoop gpf fis entries
      else if isVendorDir gpf (fiName fi) then firstPartyLoop gpf fis entries
      else if IsDir fi
        then firstPartyLoop gpf fis (entries @ [\<lparr>Name = fiName fi, Mode = S_IFDIR\<rparr>])
      else firstPartyLoop gpf fis entries)"

definition openFirstPartyDir :: "GoPathFs \<Rightarrow> 's Native \<Rightarrow> 's \<Rightarrow> DirEntry list \<times> Status" where
  "openFirstPartyDir gpf os s =
     (if \<not> os_Open os s (Workspace (dirs gpf)) then ([], ENOENT)
      else (case Readdir os s (Workspace (dirs gpf)) of
              None \<Rightarrow> ([], ENOENT)
            | Some fis \<Rightarrow> (firstPartyLoop gpf fis [], OK)))"

definition openFirstPartyChildDir ::
  "GoPathFs \<Rightarrow> 's Native \<Rightarrow> 's \<Rightarrow> string \<Rightarrow> DirEntry list \<times> Status" where
  "openFirstPartyChildDir gpf os s name0 =
     (let name = drop (length (GoPkgPrefix (cfg gpf) @ ''/'')) name0;
          entries = [];
          entries = fst (openUnderlyingDir os s (Join [Workspace (dirs gpf), name])
                           (FallThroughSet (cfg gpf)) entries);
          entries = fst (openUnderlyingDir os s
                           (Join [Workspace (dirs gpf), ''bazel-genfiles'', name])
                           (FallThroughSet (cfg gpf)) entries)
      in (entries, OK))"

definition openVendorChildDir ::
  "GoPathFs \<Rightarrow> 's Native \<Rightarrow> 's \<Rightarrow> string \<Rightarrow> string \<Rightarrow> DirEntry list \<Rightarrow> DirEntry list \<times> Status" where
  "openVendorChildDir gpf os s vendor name entries0 =
     (let entries = fst (openUnderlyingDir os s (Join [Workspace (dirs gpf), vendor, name])
                           (FallThroughSet (cfg gpf)) entries0);
          entries = fst (openUnderlyingDir os s
                           (Join [Workspace (dirs gpf), ''bazel-genfiles'', vendor, name])
                           (FallThroughSet (cfg gpf)) entries)
      in (entries, OK))"

text \<open>The two loops of \<open>OpenDir\<close>; the second ends with \<open>return nil, fuse.ENOENT\<close>.\<close>

fun openDirVendors ::
  "GoPathFs \<Rightarrow> 's Native \<Rightarrow> 's \<Rightarrow> string \<Rightarrow> string list \<Rightarrow> DirEntry list \<Rightarrow> DirEntry list \<times> Status" where
  "openDirVendors gpf os s name [] entries = ([], ENOENT)"
| "openDirVendors gpf os s name (vendor # vs) entries =
     (case openVendorChildDir gpf os s vendor name entries of
        (entries', status) \<Rightarrow>
          if status = OK then (entries', OK) else openDirVendors gpf os s name vs entries')"

fun openDirFallThrough ::
  "GoPathFs \<Rightarrow> 's Native \<Rightarrow> 's \<Rightarrow> string \<Rightarrow> string list \<Rightarrow> DirEntry list \<Rightarrow> DirEntry list \<times> Status" where
  "openDirFallThrough gpf os s name [] entries =
     openDirVendors gpf os s name (Vendors (cfg gpf)) entries"
| "openDirFallThrough gpf os s name (dir # ds) entries =
     (if dir = name \<or> HasPrefix name dir then
        (case openUnderlyingDir os s (Join [Workspace (dirs gpf), name]) {} entries of
           (entries', status) \<Rightarrow>
             if status = OK then (entries', OK)
             else openDirFallThrough gpf os s name ds entries')
      else openDirFallThrough gpf os s name ds entries)"

definition OpenDir :: "GoPathFs \<Rightarrow> 's Native \<Rightarrow> 's \<Rightarrow> string \<Rightarrow> DirEntry list \<times> Status" where
  "OpenDir gpf os s name =
     (if name = [] then openTopDir gpf os s
      else if name = GoPkgPrefix (cfg gpf) then openFirstPartyDir gpf os s
      else if HasPrefix name (GoPkgPrefix (cfg gpf) @ ''/'') then openFirstPartyChildDir gpf os s name
      else openDirFallThrough gpf os s name (FallThrough (cfg gpf)) [])"

text \<open>The status of a directory mutation: \<open>ENOENT\<close> on any error of the native call.\<close>

definition mkFirstPartyChildDir ::
  "GoPathFs \<Rightarrow> 's Native \<Rightarrow> string \<Rightarrow> 32 word \<Rightarrow> 's \<Rightarrow> Status \<times> 's" where
  "mkFirstPartyChildDir gpf os name mode s =
     (case os_MkdirAll os (Join [Workspace (dirs gpf), name]) mode s of
        (ok, s') \<Rightarrow> (if ok then OK else ENOENT, s'))"

definition mkThirdPartyChildDir ::
  "GoPathFs \<Rightarrow> 's Native \<Rightarrow> string \<Rightarrow> 32 word \<Rightarrow> 's \<Rightarrow> Status \<times> 's" where
  "mkThirdPartyChildDir gpf os name mode s =
     (case Vendors (cfg gpf) of
        [] \<Rightarrow> (ENOENT, s)
      | v0 # _ \<Rightarrow>
          (case os_MkdirAll os (Join [Workspace (dirs gpf), v0, name]) mode s of
             (ok, s') \<Rightarrow> (if ok then OK else ENOENT, s')))"

definition rmFirstPartyChildDir :: "GoPathFs \<Rightarrow> 's Native \<Rightarrow> string \<Rightarrow> 's \<Rightarrow> Status \<times> 's" where
  "rmFirstPartyChildDir gpf os name s =
     (case os_RemoveAll os (Join [Workspace (dirs gpf), name]) s of
        (ok, s') \<Rightarrow> (if ok then OK else ENOENT, s'))"

definition rmThirdPartyChildDir :: "GoPathFs \<Rightarrow> 's Native \<Rightarrow> string \<Rightarrow> 's \<Rightarrow> Status \<times> 's" where
  "rmThirdPartyChildDir gpf os name s =
     (case Vendors (cfg gpf) of
        [] \<Rightarrow> (ENOENT, s)
      | v0 # _ \<Rightarrow>
          (case os_RemoveAll os (Join [Workspace (dirs gpf), v0, name]) s of
             (ok, s') \<Rightarrow> (if ok then OK else ENOENT, s')))"

definition Mkdir :: "GoPathFs \<Rightarrow> 's Native \<Rightarrow> string \<Rightarrow> 32 word \<Rightarrow> 's \<Rightarrow> Status \<times> 's" where
  "Mkdir gpf os name mode s =
     (let prefix = GoPkgPrefix (cfg gpf) @ ''/''
      in if HasPrefix name prefix
         then mkFirstPartyChildDir gpf os (drop (length prefix) name) mode s
         else mkThirdPartyChildDir gpf os name mode s)"

definition Rmdir :: "GoPathFs \<Rightarrow> 's Native \<Rightarrow> string \<Rightarrow> 's \<Rightarrow> Status \<times> 's" where
  "Rmdir gpf os name s =
     (let prefix = GoPkgPrefix (cfg gpf) @ ''/''
      in if HasPrefix name prefix
         then rmFirstPartyChildDir gpf os (drop (length prefix) name) s
         else rmThirdPartyChildDir gpf os name s)"

section \<open>Files (file.go)\<close>

definition openUnderlyingFile ::
  "'s Native \<Rightarrow> 's \<Rightarrow> string \<Rightarrow> 32 word \<Rightarrow> File option \<times> Status" where
  "openUnderlyingFile os s name flags =
     (if os_Stat os s name = StatNotExist then (None, ENOENT)
      else if flags AND O_ANYWRITE \<noteq> 0 \<and> \<not> unix_Access_W os s name then (None, EPERM)
      else if \<not> os_OpenFile os s name flags then (None, ENOENT)
      else (Some (LoopbackFile name), OK))"

definition openFirstPartyChildFile ::
  "GoPathFs \<Rightarrow> 's Native \<Rightarrow> 's \<Rightarrow> string \<Rightarrow> 32 word \<Rightarrow> File option \<times> Status" where
  "openFirstPartyChildFile gpf os s name0 flags =
     (let name = drop (length (GoPkgPrefix (cfg gpf) @ pathSeparator)) name0
      in if name = ''GOROOT'' \<or> HasPrefix name (''GOROOT'' @ pathSeparator) then
           (case openUnderlyingFile os s
                   (Join [GoSDKDir (dirs gpf), drop (length ''GOROOT'') name]) flags of
              (f, status) \<Rightarrow> if status = OK then (f, status) else (None, ENOENT))
         else
           (case openUnderlyingFile os s (Join [Workspace (dirs gpf), name]) flags of
              (f, status) \<Rightarrow>
                if status = OK then (f, status)
                else openUnderlyingFile os s
                       (Join [Workspace (dirs gpf), ''bazel-genfiles'', name]) flags))"

definition openVendorChildFile ::
  "GoPathFs \<Rightarrow> 's Native \<Rightarrow> 's \<Rightarrow> string \<Rightarrow> string \<Rightarrow> 32 word \<Rightarrow> File option \<times> Status" where
  "openVendorChildFile gpf os s vendor name flags =
     (case openUnderlyingFile os s (Join [Workspace (dirs gpf), vendor, name]) flags of
        (f, status) \<Rightarrow>
          if status = OK then (f, status)
          else openUnderlyingFile os s
                 (Join [Workspace (dirs gpf), ''bazel-genfiles'', vendor, name]) flags)"

text \<open>The two loops of \<open>Open\<close>; the second ends with \<open>return nil, fuse.ENOENT\<close>.\<close>

fun openVendors ::
  "GoPathFs \<Rightarrow> 's Native \<Rightarrow> 's \<Rightarrow> string \<Rightarrow> 32 word \<Rightarrow> string list \<Rightarrow> File option \<times> Status" where
  "openVendors gpf os s name flags [] = (None, ENOENT)"
| "openVendors gpf os s name flags (vendor # vs) =
     (case openVendorChildFile gpf os s vendor name flags of
        (f, status) \<Rightarrow>
          if status = OK then (f, status) else openVendors gpf os s name flags vs)"

fun openFallThrough ::
  "GoPathFs \<Rightarrow> 's Native \<Rightarrow> 's \<Rightarrow> string \<Rightarrow> 32 word \<Rightarrow> string list \<Rightarrow> File option \<times> Status" where
  "openFallThrough gpf os s name flags [] = openVendors gpf os s name flags (Vendors (cfg gpf))"
| "openFallThrough gpf os s name flags (path # ps) =
     (if path = name \<or> HasPrefix name path then
        (case openUnderlyingFile os s (Join [Workspace (dirs gpf), name]) flags of
           (f, status) \<Rightarrow> if status = OK then (f, status) else (None, ENOENT))
      else openFallThrough gpf os s name flags ps)"

definition Open :: "GoPathFs \<Rightarrow> 's Native \<Rightarrow> 's \<Rightarrow> string \<Rightarrow> 32 word \<Rightarrow> File option \<times> Status" where
  "Open gpf os s name flags =
     (if HasPrefix name (GoPkgPrefix (cfg gpf) @ pathSeparator)
      then openFirstPartyChildFile gpf os s name flags
      else openFallThrough gpf os s name flags (FallThrough (cfg gpf)))"

text \<open>
  \<open>createFirstPartyChildFile\<close> and \<open>createThirdPartyChildFile\<close> share their body from
  \<open>os.Create\<close> on: the error of \<open>os.Chmod\<close> is printed and nothing else.
\<close>

definition createAt ::
  "'s Native \<Rightarrow> string \<Rightarrow> 32 word \<Rightarrow> 's \<Rightarrow> (File option \<times> Status) \<times> 's" where
  "createAt os name mode s =
     (case os_Create os name s of
        (ok, s') \<Rightarrow>
          if \<not> ok then ((None, EIO), s')
          else ((Some (LoopbackFile name), OK), snd (os_Chmod os name mode s')))"

definition createFirstPartyChildFile ::
  "GoPathFs \<Rightarrow> 's Native \<Rightarrow> string \<Rightarrow> 32 word \<Rightarrow> 32 word \<Rightarrow> 's \<Rightarrow> (File option \<times> Status) \<times> 's" where
  "createFirstPartyChildFile gpf os name flags mode s =
     createAt os (Join [Workspace (dirs gpf), name]) mode s"

definition createThirdPartyChildFile ::
  "GoPathFs \<Rightarrow> 's Native \<Rightarrow> string \<Rightarrow> 32 word \<Rightarrow> 32 word \<Rightarrow> 's \<Rightarrow> (File option \<times> Status) \<times> 's" where
  "createThirdPartyChildFile gpf os name flags mode s =
     (case Vendors (cfg gpf) of
        [] \<Rightarrow> ((None, EIO), s)
      | v0 # _ \<Rightarrow> createAt os (Join [Workspace (dirs gpf), v0, name]) mode s)"

definition Create ::
  "GoPathFs \<Rightarrow> 's Native \<Rightarrow> string \<Rightarrow> 32 word \<Rightarrow> 32 word \<Rightarrow> 's \<Rightarrow> (File option \<times> Status) \<times> 's" where
  "Create gpf os name flags mode s =
     (let prefix = GoPkgPrefix (cfg gpf) @ pathSeparator
      in if HasPrefix name prefix
         then createFirstPartyChildFile gpf os (drop (length prefix) name) flags mode s
         else createThirdPartyChildFile gpf os name flags mode s)"

definition unlinkUnderlyingFile :: "'s Native \<Rightarrow> string \<Rightarrow> 's \<Rightarrow> Status \<times> 's" where
  "unlinkUnderlyingFile os name s =
     (case os_Remove os name s of (ok, s') \<Rightarrow> (if ok then OK else EIO, s'))"

text \<open>
  The loop of \<open>Unlink\<close> over the vendors. It assigns the joined path to \<open>name\<close> itself,
  so the next iteration joins onto the path of this one.
\<close>

fun unlinkVendors ::
  "GoPathFs \<Rightarrow> 's Native \<Rightarrow> string \<Rightarrow> string list \<Rightarrow> 's \<Rightarrow> Status \<times> 's" where
  "unlinkVendors gpf os name [] s = (ENOSYS, s)"
| "unlinkVendors gpf os name (vendor # vs) s =
     (let name' = Join [Workspace (dirs gpf), vendor, name]
      in case unlinkUnderlyingFile os name' s of
           (status, s') \<Rightarrow>
             if status = OK then (status, s') else unlinkVendors gpf os name' vs s')"

definition Unlink :: "GoPathFs \<Rightarrow> 's Native \<Rightarrow> string \<Rightarrow> 's \<Rightarrow> Status \<times> 's" where
  "Unlink gpf os name s =
     (let prefix = GoPkgPrefix (cfg gpf) @ pathSeparator
      in if HasPrefix name prefix
         then unlinkUnderlyingFile os (Join [Workspace (dirs gpf), drop (length prefix) name]) s
         else unlinkVendors gpf os name (Vendors (cfg gpf)) s)"

text \<open>
  The loop of \<open>Rename\<close> over the vendors: it returns the values of \<open>oldName\<close> and
  \<open>newName\<close> at its end. It joins the vendor and the name without the workspace, and
  assigns to \<open>oldName\<close> in every iteration.
\<close>

fun renameVendors ::
  "'s Native \<Rightarrow> 's \<Rightarrow> string list \<Rightarrow> string \<Rightarrow> string \<Rightarrow> string \<times> string" where
  "renameVendors os s [] oldName newName = (oldName, newName)"
| "renameVendors os s (vendor # vs) oldName newName =
     (let oldName' = Join [vendor, oldName]
      in case os_Stat os s oldName' of
           StatOK fi \<Rightarrow> (oldName', Join [vendor, newName])
         | _ \<Rightarrow> renameVendors os s vs oldName' newName)"

text \<open>The end of \<open>Rename\<close>, from \<open>os.Rename\<close> on.\<close>

definition renameAt :: "'s Native \<Rightarrow> string \<Rightarrow> string \<Rightarrow> 's \<Rightarrow> Status \<times> 's" where
  "renameAt os oldName newName s =
     (case os_Rename os oldName newName s of (ok, s') \<Rightarrow> (if ok then OK else ENOSYS, s'))"

text \<open>
  A slice expression \<open>s[n:]\<close> with \<open>n > len(s)\<close> panics. The slice of \<open>oldName\<close> is
  guarded by \<open>HasPrefix\<close>; the slice of \<open>newName\<close> is not.
\<close>

datatype panic = SliceBoundsOutOfRange

definition Rename ::
  "GoPathFs \<Rightarrow> 's Native \<Rightarrow> string \<Rightarrow> string \<Rightarrow> 's \<Rightarrow> panic + Status \<times> 's" where
  "Rename gpf os oldName newName s =
     (if HasPrefix oldName (GoPkgPrefix (cfg gpf) @ pathSeparator) then
        (if length newName < length (GoPkgPrefix (cfg gpf)) then Inl SliceBoundsOutOfRange
         else Inr (renameAt os
                     (Join [Workspace (dirs gpf), drop (length (GoPkgPrefix (cfg gpf))) oldName])
                     (Join [Workspace (dirs gpf), drop (length (GoPkgPrefix (cfg gpf))) newName])
                     s))
      else
        (case renameVendors os s (Vendors (cfg gpf)) oldName newName of
           (oldName', newName') \<Rightarrow>
             if newName' = [] \<or> oldName' = [] then Inr (ENOSYS, s)
             else Inr (renameAt os oldName' newName' s)))"

section \<open>The words of the specification\<close>

text \<open>
  The classification of a virtual path, as the specification gives it: five rules, the
  first that matches wins. The code has no such function; each operation tests the path
  itself.
\<close>

datatype ClassifiedPath =
    Root
  | FirstPartyRoot
  | FirstPartyChild string
  | PassThrough string
  | VendorChild string

definition classify :: "Cfg \<Rightarrow> string \<Rightarrow> ClassifiedPath" where
  "classify c path =
     (if path = [] then Root
      else if path = GoPkgPrefix c then FirstPartyRoot
      else if HasPrefix path (GoPkgPrefix c @ ''/'')
        then FirstPartyChild (drop (length (GoPkgPrefix c @ ''/'')) path)
      else if \<exists>d \<in> set (FallThrough c). d = path \<or> HasPrefix path d then PassThrough path
      else VendorChild path)"

text \<open>The entries visible directly under a backing directory: none when it cannot be
  listed.\<close>

definition listingOf :: "'s Native \<Rightarrow> 's \<Rightarrow> string \<Rightarrow> FileInfo list" where
  "listingOf os s dir =
     (if os_Open os s dir then (case Readdir os s dir of None \<Rightarrow> [] | Some fis \<Rightarrow> fis) else [])"

text \<open>
  The candidate backing locations of a vendor path, as the specification lists them: for
  each vendor in order, its own tree and then its genfiles shadow.
\<close>

definition vendorCandidates :: "GoPathFs \<Rightarrow> string \<Rightarrow> string list" where
  "vendorCandidates gpf relative =
     concat (map (\<lambda>v. [Join [Workspace (dirs gpf), v, relative],
                        Join [Workspace (dirs gpf), ''bazel-genfiles'', v, relative]])
                 (Vendors (cfg gpf)))"

section \<open>Example configurations and backing stores\<close>

text \<open>
  A native layer for the examples: every read is answered from fixed tables, and the
  state is the list of the mutating calls made so far. A mutating call succeeds where
  \<open>mutable\<close> holds of its (first) path.
\<close>

datatype Syscall =
    SysMkdirAll string "32 word"
  | SysRemoveAll string
  | SysCreate string
  | SysChmod string "32 word"
  | SysRemove string
  | SysRename string string

definition traceNative ::
  "(string \<Rightarrow> FileInfo list option) \<Rightarrow> (string \<Rightarrow> StatResult) \<Rightarrow> (string \<Rightarrow> bool) \<Rightarrow>
   (string \<Rightarrow> bool) \<Rightarrow> (string \<Rightarrow> bool) \<Rightarrow> Syscall list Native" where
  "traceNative ls st writable openable mutable =
     \<lparr>os_Open = (\<lambda>s d. ls d \<noteq> None),
      Readdir = (\<lambda>s d. ls d),
      os_Stat = (\<lambda>s p. st p),
      unix_Access_W = (\<lambda>s p. writable p),
      os_OpenFile = (\<lambda>s p flags. openable p),
      path_absent = (\<lambda>s p. st p = StatNotExist),
      removeAll_present = (\<lambda>p s. (mutable p, s @ [SysRemoveAll p])),
      os_MkdirAll = (\<lambda>p mode s. (mutable p, s @ [SysMkdirAll p mode])),
      os_Create = (\<lambda>p s. (mutable p, s @ [SysCreate p])),
      os_Chmod = (\<lambda>p mode s. (mutable p, s @ [SysChmod p mode])),
      os_Remove = (\<lambda>p s. (mutable p, s @ [SysRemove p])),
      os_Rename = (\<lambda>p q s. (mutable p, s @ [SysRename p q]))\<rparr>"

definition fileInfo :: "string \<Rightarrow> FileInfo" where
  "fileInfo n = \<lparr>fiName = n, IsDir = False\<rparr>"

definition dirInfo :: "string \<Rightarrow> FileInfo" where
  "dirInfo n = \<lparr>fiName = n, IsDir = True\<rparr>"

text \<open>Stat answers from a list of the paths that exist.\<close>

definition statOf :: "(string \<times> FileInfo) list \<Rightarrow> string \<Rightarrow> StatResult" where
  "statOf tab p = (case map_of tab p of None \<Rightarrow> StatNotExist | Some fi \<Rightarrow> StatOK fi)"

text \<open>The configuration of the specification's scenario: prefix \<open>src\<close>, workspace
  \<open>/w\<close>, pass-through \<open>tools\<close>; the vendors vary.\<close>

definition exGpf :: "string list \<Rightarrow> GoPathFs" where
  "exGpf vs =
     \<lparr>cfg = \<lparr>GoPkgPrefix = ''src'', Vendors = vs, FallThrough = [''tools''],
             FallThroughSet = {''tools''}\<rparr>,
      dirs = \<lparr>Workspace = ''/w'', GoSDKDir = ''/sdk''\<rparr>,
      isIgnored = (\<lambda>n. False),
      isVendorDir = (\<lambda>n. n \<in> set vs)\<rparr>"

text \<open>A store with nothing in it: no directory can be listed, no path exists, no
  mutation succeeds.\<close>

definition emptyNative :: "Syscall list Native" where
  "emptyNative =
     traceNative (\<lambda>d. None) (\<lambda>p. StatNotExist) (\<lambda>p. False) (\<lambda>p. False) (\<lambda>p. False)"

text \<open>
  No directory entry of a listing repeats the name of an entry before it, whatever the
  type of that earlier entry.
\<close>

definition noDirShadow :: "DirEntry list \<Rightarrow> bool" where
  "noDirShadow es =
     (\<forall>i < length es. Mode (es ! i) = S_IFDIR \<longrightarrow> Name (es ! i) \<notin> Name ` set (take i es))"

text \<open>A package directory \<open>/w/pkg\<close> and its genfiles shadow, both holding a regular
  file \<open>a.go\<close>.\<close>

definition dupFilesNative :: "Syscall list Native" where
  "dupFilesNative =
     traceNative
       (map_of [(''/w/pkg'', [fileInfo ''a.go'']),
                (''/w/bazel-genfiles/pkg'', [fileInfo ''a.go''])])
       (\<lambda>p. StatNotExist) (\<lambda>p. False) (\<lambda>p. False) (\<lambda>p. False)"

text \<open>The same two directories, both holding a directory \<open>sub\<close>, with one regular file
  each.\<close>

definition dupDirsNative :: "Syscall list Native" where
  "dupDirsNative =
     traceNative
       (map_of [(''/w/pkg'', [dirInfo ''sub'', fileInfo ''a.go'']),
                (''/w/bazel-genfiles/pkg'', [dirInfo ''sub'', fileInfo ''a.pb.go''])])
       (\<lambda>p. StatNotExist) (\<lambda>p. False) (\<lambda>p. False) (\<lambda>p. False)"

text \<open>
  Every directory entry of a listing after its first entry has a name outside the
  excluded set.
\<close>

definition tailClean :: "string set \<Rightarrow> DirEntry list \<Rightarrow> bool" where
  "tailClean excludes es = (\<forall>e \<in> set (tl es). Mode e = S_IFDIR \<longrightarrow> Name e \<notin> excludes)"

text \<open>A package directory holding a directory \<open>sub\<close> and a regular file named
  \<open>tools\<close>, the pass-through name of the example configuration.\<close>

definition toolsFileNative :: "Syscall list Native" where
  "toolsFileNative =
     traceNative
       (map_of [(''/w/pkg'', [dirInfo ''sub'', fileInfo ''tools''])])
       (\<lambda>p. StatNotExist) (\<lambda>p. False) (\<lambda>p. False) (\<lambda>p. False)"

text \<open>A candidate exists and can be opened with the given flags.\<close>

definition opensForRead :: "'s Native \<Rightarrow> 's \<Rightarrow> 32 word \<Rightarrow> string \<Rightarrow> bool" where
  "opensForRead os s flags c = (os_Stat os s c \<noteq> StatNotExist \<and> os_OpenFile os s c flags)"

text \<open>A file \<open>a.go\<close> in the workspace that is not writable, and its genfiles shadow that
  is; both can be opened.\<close>

definition readOnlyNative :: "Syscall list Native" where
  "readOnlyNative =
     traceNative (\<lambda>d. None)
       (statOf [(''/w/a.go'', fileInfo ''a.go''),
                (''/w/bazel-genfiles/a.go'', fileInfo ''a.go'')])
       (\<lambda>p. p = ''/w/bazel-genfiles/a.go'') (\<lambda>p. True) (\<lambda>p. False)"

text \<open>Two vendors that both hold a file \<open>f\<close>; which paths can be opened varies.\<close>

definition twoVendorsNative :: "(string \<Rightarrow> bool) \<Rightarrow> Syscall list Native" where
  "twoVendorsNative openable =
     traceNative (\<lambda>d. None)
       (statOf [(''/w/vA/f'', fileInfo ''f''), (''/w/vB/f'', fileInfo ''f'')])
       (\<lambda>p. False) openable (\<lambda>p. False)"

text \<open>A store where every path exists and every call succeeds.\<close>

definition allMutableNative :: "Syscall list Native" where
  "allMutableNative =
     traceNative (\<lambda>d. None) (\<lambda>p. StatOK (fileInfo p)) (\<lambda>p. True) (\<lambda>p. True) (\<lambda>p. True)"

text \<open>A store where only the removal of \<open>/w/vB/w/vA/lib/f\<close> succeeds.\<close>

definition secondVendorNative :: "Syscall list Native" where
  "secondVendorNative =
     traceNative (\<lambda>d. None) (\<lambda>p. StatNotExist) (\<lambda>p. False) (\<lambda>p. False)
       (\<lambda>p. p = ''/w/vB/w/vA/lib/f'')"

text \<open>A store whose only file is \<open>/w/vendor/lib/a.go\<close>; it can be renamed.\<close>

definition vendoredFileNative :: "Syscall list Native" where
  "vendoredFileNative =
     traceNative (\<lambda>d. None) (statOf [(''/w/vendor/lib/a.go'', fileInfo ''a.go'')])
       (\<lambda>p. True) (\<lambda>p. True) (\<lambda>p. p = ''/w/vendor/lib/a.go'')"

text \<open>The entries of a listing that are not directories, and the regular files of a
  directory, each in order and with repetitions.\<close>

definition regularEntries :: "DirEntry list \<Rightarrow> DirEntry list" where
  "regularEntries es = filter (\<lambda>e. Mode e \<noteq> S_IFDIR) es"

definition regularFiles :: "FileInfo list \<Rightarrow> FileInfo list" where
  "regularFiles fis = filter (\<lambda>fi. \<not> IsDir fi) fis"

text \<open>The entries that the vendor roots contribute to the root listing: what the first
  loop of \<open>openTopDir\<close> appends behind the synthesized prefix entry.\<close>

definition rootVendorPart :: "GoPathFs \<Rightarrow> 's Native \<Rightarrow> 's \<Rightarrow> DirEntry list" where
  "rootVendorPart gpf os s =
     tl (topVendors gpf os s (Vendors (cfg gpf))
           [\<lparr>Name = GoPkgPrefix (cfg gpf), Mode = S_IFDIR\<rparr>])"

text \<open>A vendor root holding a directory and a regular file that are both named
  \<open>tools\<close> and a directory \<open>libA\<close>, and a package directory holding a directory
  \<open>sub\<close> and a regular file \<open>tools\<close>.\<close>

definition vendorToolsNative :: "Syscall list Native" where
  "vendorToolsNative =
     traceNative
       (map_of [(''/w/vendor'', [dirInfo ''tools'', fileInfo ''tools'', dirInfo ''libA'']),
                (''/w/pkg'', [dirInfo ''sub'', fileInfo ''tools''])])
       (\<lambda>p. StatNotExist) (\<lambda>p. False) (\<lambda>p. False) (\<lambda>p. False)"

text \<open>A directory \<open>lib\<close> that exists under the second vendor \<open>vB\<close> only.\<close>

definition secondVendorDirNative :: "Syscall list Native" where
  "secondVendorDirNative =
     traceNative (map_of [(''/w/vB/lib'', [fileInfo ''l.go''])])
       (\<lambda>p. StatNotExist) (\<lambda>p. False) (\<lambda>p. False) (\<lambda>p. False)"

text \<open>A store where only the removal of \<open>/w/vB/w/vA/src\<close> succeeds.\<close>

definition secondVendorPrefixNative :: "Syscall list Native" where
  "secondVendorPrefixNative =
     traceNative (\<lambda>d. None) (\<lambda>p. StatNotExist) (\<lambda>p. False) (\<lambda>p. False)
       (\<lambda>p. p = ''/w/vB/w/vA/src'')"

section \<open>Properties\<close>

subsection \<open>Listings only grow\<close>

lemma outterLoop_prefix: "prefix es (outterLoop ex fis es)"
proof (induction fis arbitrary: es)
  case Nil show ?case by simp
next
  case (Cons fi fis)
  have "prefix es (outterLoop ex fis (es @ [newEntry fi]))"
    using Cons.IH [of "es @ [newEntry fi]"] by (rule append_prefixD)
  then show ?case using Cons.IH [of es] by simp
qed

lemma openUnderlyingDir_prefix: "prefix es (fst (openUnderlyingDir os s d ex es))"
  by (simp add: openUnderlyingDir_def outterLoop_prefix split: option.splits)

lemma topVendors_prefix: "prefix es (topVendors gpf os s vs es)"
proof (induction vs arbitrary: es)
  case Nil show ?case by simp
next
  case (Cons v vs)
  show ?case
    using openUnderlyingDir_prefix Cons.IH by (simp, rule prefix_order.trans)
qed

lemma topFallThrough_prefix: "prefix es (topFallThrough gpf os s ds es)"
proof (induction ds arbitrary: es)
  case Nil show ?case by simp
next
  case (Cons d ds)
  show ?case
  proof (cases "os_Stat os s (Join [Workspace (dirs gpf), d])")
    case (StatOK fi)
    have "prefix es (topFallThrough gpf os s ds (es @ [newEntry fi]))"
      using Cons.IH [of "es @ [newEntry fi]"] by (rule append_prefixD)
    then show ?thesis using StatOK by simp
  qed (simp_all add: Cons.IH)
qed

subsection \<open>The root listing\<close>

text \<open>
  Claim C8. Listing the virtual root (the empty path) always succeeds, and the listing
  always holds a directory entry named after the first-party prefix, for every
  configuration and every state of the backing store, also when no vendor or pass-through
  directory exists or can be listed.
\<close>

theorem root_listing_has_prefix_entry:
  "snd (OpenDir gpf os s []) = OK \<and>
   \<lparr>Name = GoPkgPrefix (cfg gpf), Mode = S_IFDIR\<rparr> \<in> set (fst (OpenDir gpf os s []))"
proof -
  let ?e = "\<lparr>Name = GoPkgPrefix (cfg gpf), Mode = S_IFDIR\<rparr>"
  have "prefix [?e] (topVendors gpf os s (Vendors (cfg gpf)) [?e])"
    by (rule topVendors_prefix)
  also have "prefix \<dots> (topFallThrough gpf os s (FallThrough (cfg gpf)) \<dots>)"
    by (rule topFallThrough_prefix)
  finally have "prefix [?e] (fst (OpenDir gpf os s []))"
    by (simp add: OpenDir_def openTopDir_def)
  then have "set [?e] \<subseteq> set (fst (OpenDir gpf os s []))"
    by (rule set_mono_prefix)
  then show ?thesis by (simp add: OpenDir_def openTopDir_def)
qed

text \<open>The same on the empty store with one vendor: nothing can be listed, and the listing
  is the prefix entry alone.\<close>

theorem root_listing_has_prefix_entry_witness:
  "snd (OpenDir (exGpf [''vendor'']) emptyNative [] []) = OK \<and>
   \<lparr>Name = GoPkgPrefix (cfg (exGpf [''vendor''])), Mode = S_IFDIR\<rparr>
     \<in> set (fst (OpenDir (exGpf [''vendor'']) emptyNative [] []))"
  by (rule root_listing_has_prefix_entry)

subsection \<open>Merging two listings\<close>

lemma Mode_newEntry: "Mode (newEntry fi) = S_IFDIR \<longleftrightarrow> IsDir fi"
  by (simp add: newEntry_def S_IFDIR_def S_IFREG_def)

lemma Name_newEntry: "Name (newEntry fi) = fiName fi"
  by (simp add: newEntry_def)

lemma innerLoop_iff: "innerLoop n ex es \<longleftrightarrow> n \<in> Name ` set es \<or> (es \<noteq> [] \<and> n \<in> ex)"
  by (induction es) auto

lemma noDirShadow_snoc:
  "noDirShadow (es @ [e]) \<longleftrightarrow> noDirShadow es \<and> (Mode e = S_IFDIR \<longrightarrow> Name e \<notin> Name ` set es)"
  by (auto simp: noDirShadow_def nth_append less_Suc_eq)

lemma outterLoop_subset: "set (outterLoop ex fis es) \<subseteq> set es \<union> newEntry ` set fis"
proof (induction fis arbitrary: es)
  case Nil show ?case by simp
next
  case (Cons f fis)
  have "set (outterLoop ex fis (es @ [newEntry f])) \<subseteq> set (es @ [newEntry f]) \<union> newEntry ` set fis"
    by (rule Cons.IH)
  then have "set (outterLoop ex fis (es @ [newEntry f])) \<subseteq> set es \<union> newEntry ` set (f # fis)"
    by auto
  moreover have "set (outterLoop ex fis es) \<subseteq> set es \<union> newEntry ` set (f # fis)"
    using Cons.IH [of es] by auto
  ultimately show ?case by simp
qed

lemma outterLoop_keeps: "set es \<subseteq> set (outterLoop ex fis es)"
  using outterLoop_prefix by (rule set_mono_prefix)

lemma outterLoop_files:
  "fi \<in> set fis \<Longrightarrow> \<not> IsDir fi \<Longrightarrow> newEntry fi \<in> set (outterLoop ex fis es)"
proof (induction fis arbitrary: es)
  case Nil then show ?case by simp
next
  case (Cons f fis)
  show ?case
  proof (cases "fi = f")
    case True
    have "newEntry fi \<in> set (es @ [newEntry fi])" by simp
    then have "newEntry fi \<in> set (outterLoop ex fis (es @ [newEntry fi]))"
      using outterLoop_keeps by blast
    then show ?thesis using True Cons.prems by simp
  next
    case False
    then have "fi \<in> set fis" using Cons.prems by simp
    then show ?thesis using Cons.IH Cons.prems by simp
  qed
qed

lemma outterLoop_dirs:
  "fi \<in> set fis \<Longrightarrow> IsDir fi \<Longrightarrow> fiName fi \<notin> ex \<Longrightarrow>
   fiName fi \<in> Name ` set (outterLoop ex fis es)"
proof (induction fis arbitrary: es)
  case Nil then show ?case by simp
next
  case (Cons f fis)
  show ?case
  proof (cases "fi = f")
    case True
    show ?thesis
    proof (cases "innerLoop (fiName fi) ex es")
      case True
      then have "fiName fi \<in> Name ` set es"
        using Cons.prems by (simp add: innerLoop_iff)
      then have "fiName fi \<in> Name ` set (outterLoop ex fis es)"
        using outterLoop_keeps by blast
      then show ?thesis using True \<open>fi = f\<close> Cons.prems by simp
    next
      case False
      have "newEntry fi \<in> set (es @ [newEntry fi])" by simp
      then have "newEntry fi \<in> set (outterLoop ex fis (es @ [newEntry fi]))"
        using outterLoop_keeps by blast
      then have "Name (newEntry fi) \<in> Name ` set (outterLoop ex fis (es @ [newEntry fi]))"
        by (rule imageI)
      then show ?thesis using False \<open>fi = f\<close> by (simp add: Name_newEntry)
    qed
  next
    case False
    then have "fi \<in> set fis" using Cons.prems by simp
    then show ?thesis using Cons.IH Cons.prems by simp
  qed
qed

lemma outterLoop_noDirShadow: "noDirShadow es \<Longrightarrow> noDirShadow (outterLoop ex fis es)"
proof (induction fis arbitrary: es)
  case Nil then show ?case by simp
next
  case (Cons f fis)
  show ?case
  proof (cases "IsDir f \<and> innerLoop (fiName f) ex es")
    case True
    then show ?thesis using Cons by simp
  next
    case False
    then have "noDirShadow (es @ [newEntry f])"
      using Cons.prems by (auto simp: noDirShadow_snoc Mode_newEntry Name_newEntry innerLoop_iff)
    then have "noDirShadow (outterLoop ex fis (es @ [newEntry f]))" by (rule Cons.IH)
    then show ?thesis using False by auto
  qed
qed

lemma openUnderlyingDir_listingOf:
  "fst (openUnderlyingDir os s d ex es) = outterLoop ex (listingOf os s d) es"
  by (simp add: openUnderlyingDir_def listingOf_def split: option.splits)

lemma classify_FirstPartyChild:
  "classify c p = FirstPartyChild rel \<longleftrightarrow>
   HasPrefix p (GoPkgPrefix c @ ''/'') \<and> rel = drop (length (GoPkgPrefix c @ ''/'')) p"
  by (auto simp: classify_def HasPrefix_def)

lemma OpenDir_FirstPartyChild:
  assumes "classify (cfg gpf) p = FirstPartyChild rel"
  shows "OpenDir gpf os s p =
    (outterLoop (FallThroughSet (cfg gpf))
       (listingOf os s (Join [Workspace (dirs gpf), ''bazel-genfiles'', rel]))
       (outterLoop (FallThroughSet (cfg gpf))
          (listingOf os s (Join [Workspace (dirs gpf), rel])) []), OK)"
proof -
  have a: "HasPrefix p (GoPkgPrefix (cfg gpf) @ ''/'')"
    and b: "rel = drop (length (GoPkgPrefix (cfg gpf) @ ''/'')) p"
    using assms by (simp_all add: classify_FirstPartyChild)
  have "p \<noteq> []" "p \<noteq> GoPkgPrefix (cfg gpf)"
    using a by (auto simp: HasPrefix_def)
  then show ?thesis
    using a b by (simp add: OpenDir_def openFirstPartyChildDir_def openUnderlyingDir_listingOf Let_def)
qed

lemmas ex_simps = exGpf_def traceNative_def Join_def Clean_def HasPrefix_def
  newEntry_def fileInfo_def dirInfo_def classify_def pathSeparator_def statOf_def

lemma outterLoop_regular:
  "regularEntries (outterLoop ex fis es) = regularEntries es @ map newEntry (regularFiles fis)"
  by (induction fis arbitrary: es)
    (simp_all add: regularEntries_def regularFiles_def Mode_newEntry)

lemma regularEntries_Nil: "regularEntries [] = []"
  by (simp add: regularEntries_def)

lemma regularFiles_append: "regularFiles (xs @ ys) = regularFiles xs @ regularFiles ys"
  by (simp add: regularFiles_def)

lemma listingOf_traceNative:
  "listingOf (traceNative ls st wr op mu) s d = (case ls d of None \<Rightarrow> [] | Some fis \<Rightarrow> fis)"
  by (simp add: listingOf_def traceNative_def split: option.splits)

text \<open>
  Claim C1, as amended. For a path classified as \<open>FirstPartyChild\<close>, the listing succeeds
  and holds the entries of \<open>workspaceRoot/relative\<close> followed by those of
  \<open>workspaceRoot/bazel-genfiles/relative\<close> (a directory that cannot be listed
  contributes nothing): every entry comes from one of the two directories, the listing
  built from the workspace alone is an initial segment of it, every regular file of either
  directory is in it, every directory of either one whose name is outside the
  pass-through set has its name in it, and no directory entry repeats the name of an
  entry before it (of any type). Regular files are not de-duplicated: the entries of the
  listing that are not directories are exactly the regular files of the workspace
  directory followed by those of the genfiles directory, each as often as it occurs there.
\<close>

theorem firstPartyChild_listing:
  fixes os :: "'s Native" and s :: 's
  assumes "classify (cfg gpf) p = FirstPartyChild rel"
  defines "ws \<equiv> listingOf os s (Join [Workspace (dirs gpf), rel])"
    and "gen \<equiv> listingOf os s (Join [Workspace (dirs gpf), ''bazel-genfiles'', rel])"
    and "es \<equiv> fst (OpenDir gpf os s p)"
  shows "snd (OpenDir gpf os s p) = OK \<and>
         set es \<subseteq> newEntry ` (set ws \<union> set gen) \<and>
         prefix (outterLoop (FallThroughSet (cfg gpf)) ws []) es \<and>
         (\<forall>fi \<in> set ws \<union> set gen. \<not> IsDir fi \<longrightarrow> newEntry fi \<in> set es) \<and>
         (\<forall>fi \<in> set ws \<union> set gen.
            IsDir fi \<and> fiName fi \<notin> FallThroughSet (cfg gpf) \<longrightarrow> fiName fi \<in> Name ` set es) \<and>
         noDirShadow es \<and>
         regularEntries es = map newEntry (regularFiles (ws @ gen))"
proof -
  let ?X = "FallThroughSet (cfg gpf)"
  let ?w = "outterLoop ?X ws []"
  have eq: "OpenDir gpf os s p = (outterLoop ?X gen ?w, OK)"
    unfolding ws_def gen_def by (rule OpenDir_FirstPartyChild [OF assms(1)])
  then have es: "es = outterLoop ?X gen ?w" by (simp add: es_def)
  have keep: "set ?w \<subseteq> set es" unfolding es by (rule outterLoop_keeps)
  have 1: "snd (OpenDir gpf os s p) = OK" using eq by simp
  have "set ?w \<subseteq> newEntry ` set ws" using outterLoop_subset [of ?X ws "[]"] by simp
  moreover have "set es \<subseteq> set ?w \<union> newEntry ` set gen" unfolding es by (rule outterLoop_subset)
  ultimately have 2: "set es \<subseteq> newEntry ` (set ws \<union> set gen)" by blast
  have 3: "prefix ?w es" unfolding es by (rule outterLoop_prefix)
  have 4: "\<forall>fi \<in> set ws \<union> set gen. \<not> IsDir fi \<longrightarrow> newEntry fi \<in> set es"
  proof (intro ballI impI)
    fix fi assume "fi \<in> set ws \<union> set gen" and f: "\<not> IsDir fi"
    then consider "fi \<in> set ws" | "fi \<in> set gen" by blast
    then show "newEntry fi \<in> set es"
    proof cases
      case 1
      then have "newEntry fi \<in> set ?w" using f by (rule outterLoop_files)
      then show ?thesis using keep by blast
    next
      case 2
      then show ?thesis unfolding es using f by (rule outterLoop_files)
    qed
  qed
  have 5: "\<forall>fi \<in> set ws \<union> set gen.
            IsDir fi \<and> fiName fi \<notin> ?X \<longrightarrow> fiName fi \<in> Name ` set es"
  proof (intro ballI impI)
    fix fi assume "fi \<in> set ws \<union> set gen" and f: "IsDir fi \<and> fiName fi \<notin> ?X"
    then consider "fi \<in> set ws" | "fi \<in> set gen" by blast
    then show "fiName fi \<in> Name ` set es"
    proof cases
      case 1
      then have "fiName fi \<in> Name ` set ?w" using f by (simp add: outterLoop_dirs)
      then show ?thesis using keep by blast
    next
      case 2
      then show ?thesis unfolding es using f by (simp add: outterLoop_dirs)
    qed
  qed
  have "noDirShadow []" by (simp add: noDirShadow_def)
  then have "noDirShadow ?w" by (rule outterLoop_noDirShadow)
  then have 6: "noDirShadow es" unfolding es by (rule outterLoop_noDirShadow)
  have 7: "regularEntries es = map newEntry (regularFiles (ws @ gen))"
    unfolding es by (simp add: outterLoop_regular regularEntries_Nil regularFiles_append)
  show ?thesis using 1 2 3 4 5 6 7 by blast
qed

text \<open>
  At two inputs: with a directory \<open>sub\<close> in both trees the listing holds it once, and
  with a regular file \<open>a.go\<close> in both trees the theorem gives the two entries of that
  name.
\<close>

theorem firstPartyChild_listing_witness:
  "classify (cfg (exGpf [''vendor''])) ''src/pkg'' = FirstPartyChild ''pkg'' \<and>
   OpenDir (exGpf [''vendor'']) dupDirsNative [] ''src/pkg'' =
     ([\<lparr>Name = ''sub'', Mode = S_IFDIR\<rparr>, \<lparr>Name = ''a.go'', Mode = S_IFREG\<rparr>,
       \<lparr>Name = ''a.pb.go'', Mode = S_IFREG\<rparr>], OK) \<and>
   noDirShadow (fst (OpenDir (exGpf [''vendor'']) dupDirsNative [] ''src/pkg'')) \<and>
   regularEntries (fst (OpenDir (exGpf [''vendor'']) dupFilesNative [] ''src/pkg'')) =
     [\<lparr>Name = ''a.go'', Mode = S_IFREG\<rparr>, \<lparr>Name = ''a.go'', Mode = S_IFREG\<rparr>]"
proof -
  have h: "classify (cfg (exGpf [''vendor''])) ''src/pkg'' = FirstPartyChild ''pkg''"
    by (simp add: ex_simps)
  have v: "OpenDir (exGpf [''vendor'']) dupDirsNative [] ''src/pkg'' =
     ([\<lparr>Name = ''sub'', Mode = S_IFDIR\<rparr>, \<lparr>Name = ''a.go'', Mode = S_IFREG\<rparr>,
       \<lparr>Name = ''a.pb.go'', Mode = S_IFREG\<rparr>], OK)"
    by (simp add: ex_simps OpenDir_def openFirstPartyChildDir_def openUnderlyingDir_def
        dupDirsNative_def)
  have n: "noDirShadow (fst (OpenDir (exGpf [''vendor'']) dupDirsNative [] ''src/pkg''))"
    using firstPartyChild_listing [OF h, where os = dupDirsNative and s = "[]"] by blast
  have j1: "Join [Workspace (dirs (exGpf [''vendor''])), ''pkg''] = ''/w/pkg''"
    by (simp add: ex_simps)
  have j2: "Join [Workspace (dirs (exGpf [''vendor''])), ''bazel-genfiles'', ''pkg''] =
      ''/w/bazel-genfiles/pkg''"
    by (simp add: ex_simps)
  have "regularEntries (fst (OpenDir (exGpf [''vendor'']) dupFilesNative [] ''src/pkg'')) =
      map newEntry (regularFiles
        (listingOf dupFilesNative [] (Join [Workspace (dirs (exGpf [''vendor''])), ''pkg'']) @
         listingOf dupFilesNative []
           (Join [Workspace (dirs (exGpf [''vendor''])), ''bazel-genfiles'', ''pkg''])))"
    using firstPartyChild_listing [OF h, where os = dupFilesNative and s = "[]"] by blast
  then have r: "regularEntries (fst (OpenDir (exGpf [''vendor'']) dupFilesNative [] ''src/pkg'')) =
     [\<lparr>Name = ''a.go'', Mode = S_IFREG\<rparr>, \<lparr>Name = ''a.go'', Mode = S_IFREG\<rparr>]"
    by (simp add: j1 j2 dupFilesNative_def listingOf_traceNative regularFiles_def newEntry_def
        fileInfo_def)
  from h v n r show ?thesis by blast
qed

text \<open>
  Claim C1 as stated fails: with a regular file \<open>a.go\<close> in the workspace directory and
  in its genfiles shadow, the listing holds the name twice.
\<close>

theorem firstPartyChild_dedup_counterexample:
  "classify (cfg (exGpf [''vendor''])) ''src/pkg'' = FirstPartyChild ''pkg'' \<and>
   OpenDir (exGpf [''vendor'']) dupFilesNative [] ''src/pkg'' =
     ([\<lparr>Name = ''a.go'', Mode = S_IFREG\<rparr>, \<lparr>Name = ''a.go'', Mode = S_IFREG\<rparr>], OK)"
  by (simp add: ex_simps OpenDir_def openFirstPartyChildDir_def openUnderlyingDir_def
      dupFilesNative_def)

subsection \<open>Excluded names\<close>

lemma tailClean_snoc:
  "tailClean ex (es @ [e]) \<longleftrightarrow> tailClean ex es \<and> (es \<noteq> [] \<and> Mode e = S_IFDIR \<longrightarrow> Name e \<notin> ex)"
  by (cases es) (auto simp: tailClean_def)

lemma outterLoop_tailClean: "tailClean ex es \<Longrightarrow> tailClean ex (outterLoop ex fis es)"
proof (induction fis arbitrary: es)
  case Nil then show ?case by simp
next
  case (Cons f fis)
  show ?case
  proof (cases "IsDir f \<and> innerLoop (fiName f) ex es")
    case True
    then show ?thesis using Cons by simp
  next
    case False
    then have "tailClean ex (es @ [newEntry f])"
      using Cons.prems by (auto simp: tailClean_snoc Mode_newEntry Name_newEntry innerLoop_iff)
    then have "tailClean ex (outterLoop ex fis (es @ [newEntry f]))" by (rule Cons.IH)
    then show ?thesis using False by auto
  qed
qed

lemma openUnderlyingDir_tailClean:
  "tailClean ex es \<Longrightarrow> tailClean ex (fst (openUnderlyingDir os s d ex es))"
  by (simp add: openUnderlyingDir_listingOf outterLoop_tailClean)

lemma topVendors_tailClean:
  "tailClean (FallThroughSet (cfg gpf)) es \<Longrightarrow>
   tailClean (FallThroughSet (cfg gpf)) (topVendors gpf os s vs es)"
  by (induction vs arbitrary: es) (simp_all add: openUnderlyingDir_tailClean)

lemma openVendorChildDir_eq:
  "openVendorChildDir gpf os s v name es =
    (outterLoop (FallThroughSet (cfg gpf))
       (listingOf os s (Join [Workspace (dirs gpf), ''bazel-genfiles'', v, name]))
       (outterLoop (FallThroughSet (cfg gpf))
          (listingOf os s (Join [Workspace (dirs gpf), v, name])) es), OK)"
  by (simp add: openVendorChildDir_def openUnderlyingDir_listingOf Let_def)

lemma openDirVendors_eq:
  "openDirVendors gpf os s name vs es =
     (case vs of [] \<Rightarrow> ([], ENOENT) | v # _ \<Rightarrow> openVendorChildDir gpf os s v name es)"
  by (cases vs) (simp_all add: openVendorChildDir_eq)

lemma openDirFallThrough_skip:
  "\<forall>d \<in> set ds. \<not> (d = name \<or> HasPrefix name d) \<Longrightarrow>
   openDirFallThrough gpf os s name ds es = openDirVendors gpf os s name (Vendors (cfg gpf)) es"
  by (induction ds) simp_all

lemma classify_VendorChild:
  "classify c p = VendorChild rel \<longleftrightarrow>
   p \<noteq> [] \<and> p \<noteq> GoPkgPrefix c \<and> \<not> HasPrefix p (GoPkgPrefix c @ ''/'') \<and>
   (\<forall>d \<in> set (FallThrough c). \<not> (d = p \<or> HasPrefix p d)) \<and> rel = p"
  by (auto simp: classify_def)

lemma OpenDir_VendorChild:
  assumes "classify (cfg gpf) p = VendorChild rel"
  shows "OpenDir gpf os s p = openDirVendors gpf os s p (Vendors (cfg gpf)) []"
  using assms by (simp add: classify_VendorChild OpenDir_def openDirFallThrough_skip)

lemma topVendors_regular:
  "regularEntries (topVendors gpf os s vs es) =
     regularEntries es @
     map newEntry
       (regularFiles (concat (map (\<lambda>v. listingOf os s (Join [Workspace (dirs gpf), v])) vs)))"
proof (induction vs arbitrary: es)
  case Nil show ?case by (simp add: regularFiles_def)
next
  case (Cons v vs)
  show ?case
    by (simp add: Cons.IH openUnderlyingDir_listingOf outterLoop_regular regularFiles_append)
qed

lemma topVendors_keeps: "set es \<subseteq> set (topVendors gpf os s vs es)"
  using topVendors_prefix by (rule set_mono_prefix)

lemma topVendors_dirs:
  "v \<in> set vs \<Longrightarrow> fi \<in> set (listingOf os s (Join [Workspace (dirs gpf), v])) \<Longrightarrow> IsDir fi \<Longrightarrow>
   fiName fi \<notin> FallThroughSet (cfg gpf) \<Longrightarrow>
   fiName fi \<in> Name ` set (topVendors gpf os s vs es)"
proof (induction vs arbitrary: es)
  case Nil then show ?case by simp
next
  case (Cons w vs)
  let ?es' = "outterLoop (FallThroughSet (cfg gpf))
                (listingOf os s (Join [Workspace (dirs gpf), w])) es"
  have step: "topVendors gpf os s (w # vs) es = topVendors gpf os s vs ?es'"
    by (simp add: openUnderlyingDir_listingOf)
  show ?case
  proof (cases "v = w")
    case True
    then have "fiName fi \<in> Name ` set ?es'"
      using Cons.prems by (simp add: outterLoop_dirs)
    then show ?thesis
      unfolding step using topVendors_keeps [of ?es' gpf os s vs] by blast
  next
    case False
    then have "v \<in> set vs" using Cons.prems by simp
    then show ?thesis unfolding step using Cons.prems by (simp add: Cons.IH)
  qed
qed

lemma topVendors_hd:
  "topVendors gpf os s vs (e # es) = e # tl (topVendors gpf os s vs (e # es))"
proof -
  have "prefix (e # es) (topVendors gpf os s vs (e # es))" by (rule topVendors_prefix)
  then obtain zs where "topVendors gpf os s vs (e # es) = (e # es) @ zs"
    by (auto simp: prefix_def)
  then show ?thesis by simp
qed

text \<open>
  Claim C2, as amended. In the root listing, which is the synthesized prefix entry, then
  the entries of the vendor roots, then the pass-through entries, no directory entry that
  a vendor root contributes has a name in the pass-through set, while every directory of
  a vendor root with a name outside that set has its name listed. Regular files are not
  filtered by the pass-through set: the regular-file entries that the vendor roots
  contribute to the root listing are exactly the regular files of the vendor roots, and
  the regular-file entries of the listing of a \<open>FirstPartyChild\<close> path are exactly the
  regular files of its two backing directories, whatever their names. Nothing is said of
  directories in the listing of a child path.
\<close>

theorem excluded_directories:
  assumes "classify (cfg gpf) p = FirstPartyChild rel"
  shows "fst (OpenDir gpf os s []) =
           topFallThrough gpf os s (FallThrough (cfg gpf))
             (\<lparr>Name = GoPkgPrefix (cfg gpf), Mode = S_IFDIR\<rparr> # rootVendorPart gpf os s) \<and>
         (\<forall>e \<in> set (rootVendorPart gpf os s).
            Mode e = S_IFDIR \<longrightarrow> Name e \<notin> FallThroughSet (cfg gpf)) \<and>
         (\<forall>v \<in> set (Vendors (cfg gpf)).
            \<forall>fi \<in> set (listingOf os s (Join [Workspace (dirs gpf), v])).
              IsDir fi \<and> fiName fi \<notin> FallThroughSet (cfg gpf) \<longrightarrow>
              fiName fi \<in> Name ` set (\<lparr>Name = GoPkgPrefix (cfg gpf), Mode = S_IFDIR\<rparr>
                                      # rootVendorPart gpf os s)) \<and>
         regularEntries (rootVendorPart gpf os s) =
           map newEntry
             (regularFiles
                (concat (map (\<lambda>v. listingOf os s (Join [Workspace (dirs gpf), v]))
                             (Vendors (cfg gpf))))) \<and>
         regularEntries (fst (OpenDir gpf os s p)) =
           map newEntry
             (regularFiles
                (listingOf os s (Join [Workspace (dirs gpf), rel]) @
                 listingOf os s (Join [Workspace (dirs gpf), ''bazel-genfiles'', rel])))"
proof -
  let ?X = "FallThroughSet (cfg gpf)"
  let ?pe = "\<lparr>Name = GoPkgPrefix (cfg gpf), Mode = S_IFDIR\<rparr>"
  let ?tv = "topVendors gpf os s (Vendors (cfg gpf)) [?pe]"
  have tv: "?tv = ?pe # rootVendorPart gpf os s"
    unfolding rootVendorPart_def by (rule topVendors_hd)
  have 1: "fst (OpenDir gpf os s []) =
           topFallThrough gpf os s (FallThrough (cfg gpf)) (?pe # rootVendorPart gpf os s)"
    unfolding tv [symmetric] by (simp add: OpenDir_def openTopDir_def)
  have "tailClean ?X [?pe]" by (simp add: tailClean_def)
  then have "tailClean ?X ?tv" by (rule topVendors_tailClean)
  then have 2: "\<forall>e \<in> set (rootVendorPart gpf os s). Mode e = S_IFDIR \<longrightarrow> Name e \<notin> ?X"
    by (simp add: tailClean_def rootVendorPart_def)
  have 3: "\<forall>v \<in> set (Vendors (cfg gpf)).
            \<forall>fi \<in> set (listingOf os s (Join [Workspace (dirs gpf), v])).
              IsDir fi \<and> fiName fi \<notin> ?X \<longrightarrow>
              fiName fi \<in> Name ` set (?pe # rootVendorPart gpf os s)"
    unfolding tv [symmetric] by (intro ballI impI) (simp add: topVendors_dirs)
  have "regularEntries ?tv =
          regularEntries [?pe] @
          map newEntry
            (regularFiles
               (concat (map (\<lambda>v. listingOf os s (Join [Workspace (dirs gpf), v]))
                            (Vendors (cfg gpf)))))"
    by (rule topVendors_regular)
  moreover have "regularEntries ?tv = regularEntries (rootVendorPart gpf os s)"
    by (subst tv) (simp add: regularEntries_def)
  ultimately have 4: "regularEntries (rootVendorPart gpf os s) =
           map newEntry
             (regularFiles
                (concat (map (\<lambda>v. listingOf os s (Join [Workspace (dirs gpf), v]))
                             (Vendors (cfg gpf)))))"
    by (simp add: regularEntries_def)
  have 5: "regularEntries (fst (OpenDir gpf os s p)) =
           map newEntry
             (regularFiles
                (listingOf os s (Join [Workspace (dirs gpf), rel]) @
                 listingOf os s (Join [Workspace (dirs gpf), ''bazel-genfiles'', rel])))"
    by (simp add: OpenDir_FirstPartyChild [OF assms] outterLoop_regular regularEntries_Nil
        regularFiles_append)
  show ?thesis by (intro conjI 1 2 3 4 5)
qed

lemmas dir_simps = OpenDir_def openFirstPartyChildDir_def openUnderlyingDir_def
  openVendorChildDir_def openTopDir_def

text \<open>
  On a vendor root that holds a directory \<open>tools\<close>, a regular file \<open>tools\<close> and a
  directory \<open>libA\<close>: the directory \<open>tools\<close> is left out of the root listing, the
  regular file is listed.
\<close>

theorem excluded_directories_witness:
  "classify (cfg (exGpf [''vendor''])) ''src/pkg'' = FirstPartyChild ''pkg'' \<and>
   rootVendorPart (exGpf [''vendor'']) vendorToolsNative [] =
     [\<lparr>Name = ''tools'', Mode = S_IFREG\<rparr>, \<lparr>Name = ''libA'', Mode = S_IFDIR\<rparr>] \<and>
   fst (OpenDir (exGpf [''vendor'']) vendorToolsNative [] []) =
     [\<lparr>Name = ''src'', Mode = S_IFDIR\<rparr>, \<lparr>Name = ''tools'', Mode = S_IFREG\<rparr>,
      \<lparr>Name = ''libA'', Mode = S_IFDIR\<rparr>] \<and>
   regularEntries (fst (OpenDir (exGpf [''vendor'']) vendorToolsNative [] ''src/pkg'')) =
     [\<lparr>Name = ''tools'', Mode = S_IFREG\<rparr>]"
proof -
  have h: "classify (cfg (exGpf [''vendor''])) ''src/pkg'' = FirstPartyChild ''pkg''"
    by (simp add: ex_simps)
  have rv: "rootVendorPart (exGpf [''vendor'']) vendorToolsNative [] =
     [\<lparr>Name = ''tools'', Mode = S_IFREG\<rparr>, \<lparr>Name = ''libA'', Mode = S_IFDIR\<rparr>]"
    by (simp add: rootVendorPart_def ex_simps dir_simps vendorToolsNative_def)
  have pe: "GoPkgPrefix (cfg (exGpf [''vendor''])) = ''src''"
    and ft: "FallThrough (cfg (exGpf [''vendor''])) = [''tools'']"
    by (simp_all add: exGpf_def)
  have j0: "Join [Workspace (dirs (exGpf [''vendor''])), ''tools''] = ''/w/tools''"
    by (simp add: ex_simps)
  have j1: "Join [Workspace (dirs (exGpf [''vendor''])), ''pkg''] = ''/w/pkg''"
    by (simp add: ex_simps)
  have j2: "Join [Workspace (dirs (exGpf [''vendor''])), ''bazel-genfiles'', ''pkg''] =
      ''/w/bazel-genfiles/pkg''"
    by (simp add: ex_simps)
  note t = excluded_directories [OF h, where os = vendorToolsNative and s = "[]"]
  have "fst (OpenDir (exGpf [''vendor'']) vendorToolsNative [] []) =
      topFallThrough (exGpf [''vendor'']) vendorToolsNative [] [''tools'']
        [\<lparr>Name = ''src'', Mode = S_IFDIR\<rparr>, \<lparr>Name = ''tools'', Mode = S_IFREG\<rparr>,
         \<lparr>Name = ''libA'', Mode = S_IFDIR\<rparr>]"
    using t [THEN conjunct1, unfolded rv pe ft] .
  then have a: "fst (OpenDir (exGpf [''vendor'']) vendorToolsNative [] []) =
     [\<lparr>Name = ''src'', Mode = S_IFDIR\<rparr>, \<lparr>Name = ''tools'', Mode = S_IFREG\<rparr>,
      \<lparr>Name = ''libA'', Mode = S_IFDIR\<rparr>]"
    by (simp add: j0 vendorToolsNative_def traceNative_def)
  have "regularEntries (fst (OpenDir (exGpf [''vendor'']) vendorToolsNative [] ''src/pkg'')) =
      map newEntry (regularFiles
        (listingOf vendorToolsNative [] (Join [Workspace (dirs (exGpf [''vendor''])), ''pkg'']) @
         listingOf vendorToolsNative []
           (Join [Workspace (dirs (exGpf [''vendor''])), ''bazel-genfiles'', ''pkg''])))"
    using t by blast
  then have b: "regularEntries (fst (OpenDir (exGpf [''vendor'']) vendorToolsNative [] ''src/pkg'')) =
     [\<lparr>Name = ''tools'', Mode = S_IFREG\<rparr>]"
    by (simp add: j1 j2 vendorToolsNative_def listingOf_traceNative regularFiles_def newEntry_def
        fileInfo_def dirInfo_def)
  from h rv a b show ?thesis by blast
qed

text \<open>
  Claim C2 as stated fails: a regular file named \<open>tools\<close> in a workspace directory is
  listed, although \<open>tools\<close> is in the pass-through set and the listing was not empty
  when the file was met.
\<close>

theorem excluded_name_listed_counterexample:
  "''tools'' \<in> FallThroughSet (cfg (exGpf [''vendor''])) \<and>
   OpenDir (exGpf [''vendor'']) toolsFileNative [] ''src/pkg'' =
     ([\<lparr>Name = ''sub'', Mode = S_IFDIR\<rparr>, \<lparr>Name = ''tools'', Mode = S_IFREG\<rparr>], OK)"
  by (simp add: ex_simps dir_simps toolsFileNative_def)

subsection \<open>The status of a child listing\<close>

text \<open>
  Claim C3, as amended. For a path classified as \<open>FirstPartyChild\<close>, each of the two
  candidate directories that cannot be listed contributes nothing, and the listing always
  succeeds: it is the merge of the workspace listing and the genfiles listing, which is
  empty when both candidates fail. For a path classified as \<open>VendorChild\<close>, the listing
  fails with \<open>ENOENT\<close> when no vendor root is configured. Nothing is said of the
  listing of a \<open>VendorChild\<close> path when vendor roots are configured.
\<close>

theorem child_listing_status:
  assumes "classify (cfg gpf) p = FirstPartyChild rel"
    and "classify (cfg gpf0) q = VendorChild rel'"
    and "Vendors (cfg gpf0) = []"
  shows "OpenDir gpf os s p =
           (outterLoop (FallThroughSet (cfg gpf))
              (listingOf os s (Join [Workspace (dirs gpf), ''bazel-genfiles'', rel]))
              (outterLoop (FallThroughSet (cfg gpf))
                 (listingOf os s (Join [Workspace (dirs gpf), rel])) []), OK) \<and>
         (listingOf os s (Join [Workspace (dirs gpf), rel]) = [] \<and>
          listingOf os s (Join [Workspace (dirs gpf), ''bazel-genfiles'', rel]) = [] \<longrightarrow>
            OpenDir gpf os s p = ([], OK)) \<and>
         OpenDir gpf0 os s q = ([], ENOENT)"
proof -
  have 1: "OpenDir gpf os s p =
           (outterLoop (FallThroughSet (cfg gpf))
              (listingOf os s (Join [Workspace (dirs gpf), ''bazel-genfiles'', rel]))
              (outterLoop (FallThroughSet (cfg gpf))
                 (listingOf os s (Join [Workspace (dirs gpf), rel])) []), OK)"
    by (rule OpenDir_FirstPartyChild [OF assms(1)])
  have 2: "listingOf os s (Join [Workspace (dirs gpf), rel]) = [] \<and>
          listingOf os s (Join [Workspace (dirs gpf), ''bazel-genfiles'', rel]) = [] \<longrightarrow>
            OpenDir gpf os s p = ([], OK)"
    by (simp add: 1)
  have 3: "OpenDir gpf0 os s q = ([], ENOENT)"
    using assms(3) by (simp add: OpenDir_VendorChild [OF assms(2)])
  show ?thesis by (intro conjI 1 2 3)
qed

theorem child_listing_status_witness:
  "classify (cfg (exGpf [''vendor''])) ''src/pkg'' = FirstPartyChild ''pkg'' \<and>
   classify (cfg (exGpf [])) ''lib'' = VendorChild ''lib'' \<and>
   Vendors (cfg (exGpf [])) = [] \<and>
   OpenDir (exGpf [''vendor'']) emptyNative [] ''src/pkg'' = ([], OK) \<and>
   OpenDir (exGpf []) emptyNative [] ''lib'' = ([], ENOENT)"
proof -
  have h1: "classify (cfg (exGpf [''vendor''])) ''src/pkg'' = FirstPartyChild ''pkg''"
    by (simp add: ex_simps)
  have h2: "classify (cfg (exGpf [])) ''lib'' = VendorChild ''lib''"
    by (simp add: ex_simps)
  have h3: "Vendors (cfg (exGpf [])) = []" by (simp add: exGpf_def)
  have l: "listingOf emptyNative [] (Join [Workspace (dirs (exGpf [''vendor''])), ''pkg'']) = [] \<and>
      listingOf emptyNative []
        (Join [Workspace (dirs (exGpf [''vendor''])), ''bazel-genfiles'', ''pkg'']) = []"
    by (simp add: emptyNative_def listingOf_traceNative)
  note t = child_listing_status [OF h1 h2 h3, where os = emptyNative and s = "[]"]
  have a: "OpenDir (exGpf [''vendor'']) emptyNative [] ''src/pkg'' = ([], OK)"
    using t l by blast
  have b: "OpenDir (exGpf []) emptyNative [] ''lib'' = ([], ENOENT)"
    using t by blast
  from h1 h2 h3 a b show ?thesis by blast
qed

text \<open>
  Claim C3 as stated fails. On the empty store both candidates of \<open>src/pkg\<close> are lookup
  failures and nothing is accumulated, and the listing succeeds with no entries. With
  vendors \<open>vA\<close> and \<open>vB\<close> and a directory \<open>lib\<close> under \<open>vB\<close> only, the listing
  of \<open>lib\<close> succeeds with no entries as well: it is neither \<open>ENOENT\<close> nor the
  listing found under \<open>vB\<close>.
\<close>

theorem child_listing_never_fails_counterexample:
  "classify (cfg (exGpf [''vendor''])) ''src/pkg'' = FirstPartyChild ''pkg'' \<and>
   openUnderlyingDir emptyNative [] ''/w/pkg'' {''tools''} [] = ([], ENOENT) \<and>
   openUnderlyingDir emptyNative [] ''/w/bazel-genfiles/pkg'' {''tools''} [] = ([], ENOENT) \<and>
   OpenDir (exGpf [''vendor'']) emptyNative [] ''src/pkg'' = ([], OK) \<and>
   classify (cfg (exGpf [''vA'', ''vB''])) ''lib'' = VendorChild ''lib'' \<and>
   openUnderlyingDir secondVendorDirNative [] ''/w/vB/lib'' {''tools''} [] =
     ([\<lparr>Name = ''l.go'', Mode = S_IFREG\<rparr>], OK) \<and>
   OpenDir (exGpf [''vA'', ''vB'']) secondVendorDirNative [] ''lib'' = ([], OK)"
  by (simp add: ex_simps dir_simps emptyNative_def secondVendorDirNative_def)

subsection \<open>Opening files\<close>

lemma openUnderlyingFile_cases:
  "openUnderlyingFile os s c flags = (Some (LoopbackFile c), OK) \<or>
   openUnderlyingFile os s c flags = (None, ENOENT) \<or>
   openUnderlyingFile os s c flags = (None, EPERM)"
  by (simp add: openUnderlyingFile_def)

lemma openUnderlyingFile_OK:
  "snd (openUnderlyingFile os s c flags) = OK \<Longrightarrow>
   openUnderlyingFile os s c flags = (Some (LoopbackFile c), OK)"
  using openUnderlyingFile_cases [of os s c flags] by auto

lemma openUnderlyingFile_read:
  "flags AND O_ANYWRITE = 0 \<Longrightarrow>
   snd (openUnderlyingFile os s c flags) = OK \<longleftrightarrow> opensForRead os s flags c"
  by (simp add: openUnderlyingFile_def opensForRead_def)

lemma openVendorChildFile_first:
  "snd (openUnderlyingFile os s (Join [Workspace (dirs gpf), v, name]) flags) = OK \<Longrightarrow>
   openVendorChildFile gpf os s v name flags =
     (Some (LoopbackFile (Join [Workspace (dirs gpf), v, name])), OK)"
  by (simp add: openVendorChildFile_def case_prod_beta openUnderlyingFile_OK)

lemma openVendorChildFile_second:
  "snd (openUnderlyingFile os s (Join [Workspace (dirs gpf), v, name]) flags) \<noteq> OK \<Longrightarrow>
   openVendorChildFile gpf os s v name flags =
     openUnderlyingFile os s (Join [Workspace (dirs gpf), ''bazel-genfiles'', v, name]) flags"
  by (simp add: openVendorChildFile_def case_prod_beta)

lemma openVendors_find:
  "openVendors gpf os s name flags vs =
     (case find (\<lambda>c. snd (openUnderlyingFile os s c flags) = OK)
             (concat (map (\<lambda>v. [Join [Workspace (dirs gpf), v, name],
                                 Join [Workspace (dirs gpf), ''bazel-genfiles'', v, name]]) vs)) of
        None \<Rightarrow> (None, ENOENT)
      | Some c \<Rightarrow> (Some (LoopbackFile c), OK))"
proof (induction vs)
  case Nil show ?case by simp
next
  case (Cons v vs)
  let ?c1 = "Join [Workspace (dirs gpf), v, name]"
  let ?c2 = "Join [Workspace (dirs gpf), ''bazel-genfiles'', v, name]"
  show ?case
  proof (cases "snd (openUnderlyingFile os s ?c1 flags) = OK")
    case True
    then show ?thesis by (simp add: openVendorChildFile_first)
  next
    case n1: False
    show ?thesis
    proof (cases "snd (openUnderlyingFile os s ?c2 flags) = OK")
      case True
      then show ?thesis
        using n1 by (simp add: openVendorChildFile_second openUnderlyingFile_OK)
    next
      case False
      then show ?thesis
        using n1 Cons.IH by (simp add: openVendorChildFile_second case_prod_beta)
    qed
  qed
qed

lemma openFallThrough_skip:
  "\<forall>d \<in> set ds. \<not> (d = name \<or> HasPrefix name d) \<Longrightarrow>
   openFallThrough gpf os s name flags ds = openVendors gpf os s name flags (Vendors (cfg gpf))"
  by (induction ds) simp_all

lemma openVendors_status:
  "snd (openVendors gpf os s name flags vs) = OK \<or> snd (openVendors gpf os s name flags vs) = ENOENT"
  by (simp add: openVendors_find split: option.splits)

lemma openFallThrough_status:
  "snd (openFallThrough gpf os s name flags ds) = OK \<or>
   snd (openFallThrough gpf os s name flags ds) = ENOENT"
  using openVendors_status [of gpf os s name flags "Vendors (cfg gpf)"]
  by (induction ds) (simp_all add: case_prod_beta)

text \<open>
  Claim C7, as amended. For a path classified as \<open>VendorChild\<close> and a request that asks
  for no write access, the candidates are tried in vendor order, each vendor's own tree and
  then its genfiles shadow, and the result is the first candidate that exists and can be
  opened; when there is none the result is \<open>ENOENT\<close>. A candidate that exists and cannot
  be opened is passed over like a missing one.
\<close>

theorem vendor_open_first_openable:
  assumes "classify (cfg gpf) p = VendorChild rel"
    and "flags AND O_ANYWRITE = 0"
  shows "Open gpf os s p flags =
     (case find (opensForRead os s flags) (vendorCandidates gpf rel) of
        None \<Rightarrow> (None, ENOENT)
      | Some c \<Rightarrow> (Some (LoopbackFile c), OK))"
proof -
  have c: "\<not> HasPrefix p (GoPkgPrefix (cfg gpf) @ pathSeparator)"
    "\<forall>d \<in> set (FallThrough (cfg gpf)). \<not> (d = p \<or> HasPrefix p d)" "rel = p"
    using assms(1) by (simp_all add: classify_VendorChild pathSeparator_def)
  have "(\<lambda>c. snd (openUnderlyingFile os s c flags) = OK) = opensForRead os s flags"
    using assms(2) by (simp add: fun_eq_iff openUnderlyingFile_read)
  then show ?thesis
    using c by (simp add: Open_def openFallThrough_skip openVendors_find vendorCandidates_def)
qed

lemmas file_simps = Open_def openFirstPartyChildFile_def openVendorChildFile_def
  openUnderlyingFile_def O_ANYWRITE_def O_WRONLY_def O_RDONLY_def

text \<open>With vendors \<open>vA\<close> and \<open>vB\<close> that both hold an openable \<open>f\<close>, the file under
  \<open>vA\<close> is returned.\<close>

theorem vendor_open_first_openable_witness:
  "classify (cfg (exGpf [''vA'', ''vB''])) ''f'' = VendorChild ''f'' \<and>
   O_RDONLY AND O_ANYWRITE = 0 \<and>
   vendorCandidates (exGpf [''vA'', ''vB'']) ''f'' =
     [''/w/vA/f'', ''/w/bazel-genfiles/vA/f'', ''/w/vB/f'', ''/w/bazel-genfiles/vB/f''] \<and>
   Open (exGpf [''vA'', ''vB'']) (twoVendorsNative (\<lambda>p. True)) [] ''f'' O_RDONLY =
     (Some (LoopbackFile ''/w/vA/f''), OK)"
proof -
  have h1: "classify (cfg (exGpf [''vA'', ''vB''])) ''f'' = VendorChild ''f''"
    by (simp add: ex_simps)
  have h2: "O_RDONLY AND O_ANYWRITE = 0"
    by (simp add: O_RDONLY_def)
  have vc: "vendorCandidates (exGpf [''vA'', ''vB'']) ''f'' =
     [''/w/vA/f'', ''/w/bazel-genfiles/vA/f'', ''/w/vB/f'', ''/w/bazel-genfiles/vB/f'']"
    by (simp add: ex_simps vendorCandidates_def)
  have f: "find (opensForRead (twoVendorsNative (\<lambda>p. True)) [] O_RDONLY)
      [''/w/vA/f'', ''/w/bazel-genfiles/vA/f'', ''/w/vB/f'', ''/w/bazel-genfiles/vB/f''] =
      Some ''/w/vA/f''"
    by (simp add: opensForRead_def twoVendorsNative_def traceNative_def statOf_def)
  have "Open (exGpf [''vA'', ''vB'']) (twoVendorsNative (\<lambda>p. True)) [] ''f'' O_RDONLY =
     (Some (LoopbackFile ''/w/vA/f''), OK)"
    using vendor_open_first_openable [OF h1 h2, where os = "twoVendorsNative (\<lambda>p. True)"
        and s = "[]", unfolded vc f]
    by simp
  with h1 h2 vc show ?thesis by blast
qed

text \<open>
  Claim C7 as stated fails: \<open>f\<close> exists under both vendors, the one under \<open>vA\<close>
  cannot be opened, and the file under \<open>vB\<close> is returned.
\<close>

theorem vendor_open_existing_skipped_counterexample:
  "classify (cfg (exGpf [''vA'', ''vB''])) ''f'' = VendorChild ''f'' \<and>
   os_Stat (twoVendorsNative (\<lambda>p. p = ''/w/vB/f'')) [] ''/w/vA/f'' = StatOK (fileInfo ''f'') \<and>
   os_Stat (twoVendorsNative (\<lambda>p. p = ''/w/vB/f'')) [] ''/w/vB/f'' = StatOK (fileInfo ''f'') \<and>
   Open (exGpf [''vA'', ''vB'']) (twoVendorsNative (\<lambda>p. p = ''/w/vB/f'')) [] ''f'' O_RDONLY =
     (Some (LoopbackFile ''/w/vB/f''), OK)"
  by (simp add: ex_simps file_simps twoVendorsNative_def)

text \<open>
  Claim C4, as amended. For a request that asks for write access, a candidate that exists
  and is not writable makes \<open>openUnderlyingFile\<close> return \<open>EPERM\<close>, and the callers
  treat that like any other failure: for a first-party path outside the SDK overlay the
  result of the open is then the result of the genfiles shadow candidate, and the open of
  a path that is not first-party returns \<open>OK\<close> or \<open>ENOENT\<close>, never a permission
  error.
\<close>

theorem permission_error_falls_through:
  assumes "classify (cfg gpf) p = FirstPartyChild rel"
    and "\<not> (rel = ''GOROOT'' \<or> HasPrefix rel ''GOROOT/'')"
    and "os_Stat os s (Join [Workspace (dirs gpf), rel]) \<noteq> StatNotExist"
    and "flags AND O_ANYWRITE \<noteq> 0"
    and "\<not> unix_Access_W os s (Join [Workspace (dirs gpf), rel])"
    and "\<not> HasPrefix q (GoPkgPrefix (cfg gpf) @ ''/'')"
  shows "openUnderlyingFile os s (Join [Workspace (dirs gpf), rel]) flags = (None, EPERM) \<and>
         Open gpf os s p flags =
           openUnderlyingFile os s (Join [Workspace (dirs gpf), ''bazel-genfiles'', rel]) flags \<and>
         (snd (Open gpf os s q flags) = OK \<or> snd (Open gpf os s q flags) = ENOENT)"
proof -
  have 1: "openUnderlyingFile os s (Join [Workspace (dirs gpf), rel]) flags = (None, EPERM)"
    using assms(3-5) by (simp add: openUnderlyingFile_def)
  have a: "HasPrefix p (GoPkgPrefix (cfg gpf) @ ''/'')"
    and b: "rel = drop (length (GoPkgPrefix (cfg gpf) @ ''/'')) p"
    using assms(1) by (simp_all add: classify_FirstPartyChild)
  have 2: "Open gpf os s p flags =
           openUnderlyingFile os s (Join [Workspace (dirs gpf), ''bazel-genfiles'', rel]) flags"
    using a b [symmetric] assms(2) 1
    by (simp add: Open_def openFirstPartyChildFile_def pathSeparator_def)
  have 3: "snd (Open gpf os s q flags) = OK \<or> snd (Open gpf os s q flags) = ENOENT"
    using assms(6) openFallThrough_status [of gpf os s q flags "FallThrough (cfg gpf)"]
    by (simp add: Open_def pathSeparator_def)
  show ?thesis by (intro conjI 1 2 3)
qed

theorem permission_error_falls_through_witness:
  "classify (cfg (exGpf [''vendor''])) ''src/a.go'' = FirstPartyChild ''a.go'' \<and>
   openUnderlyingFile readOnlyNative [] ''/w/a.go'' O_WRONLY = (None, EPERM) \<and>
   Open (exGpf [''vendor'']) readOnlyNative [] ''src/a.go'' O_WRONLY =
     openUnderlyingFile readOnlyNative [] ''/w/bazel-genfiles/a.go'' O_WRONLY \<and>
   (snd (Open (exGpf [''vendor'']) readOnlyNative [] ''lib/a.go'' O_WRONLY) = OK \<or>
    snd (Open (exGpf [''vendor'']) readOnlyNative [] ''lib/a.go'' O_WRONLY) = ENOENT)"
proof -
  have h1: "classify (cfg (exGpf [''vendor''])) ''src/a.go'' = FirstPartyChild ''a.go''"
    by (simp add: ex_simps)
  have h2: "\<not> (''a.go'' = ''GOROOT'' \<or> HasPrefix ''a.go'' ''GOROOT/'')"
    by (simp add: HasPrefix_def)
  have j1: "Join [Workspace (dirs (exGpf [''vendor''])), ''a.go''] = ''/w/a.go''"
    by (simp add: ex_simps)
  have j2: "Join [Workspace (dirs (exGpf [''vendor''])), ''bazel-genfiles'', ''a.go''] =
      ''/w/bazel-genfiles/a.go''"
    by (simp add: ex_simps)
  have h3: "os_Stat readOnlyNative [] (Join [Workspace (dirs (exGpf [''vendor''])), ''a.go''])
      \<noteq> StatNotExist"
    unfolding j1 by (simp add: readOnlyNative_def traceNative_def statOf_def)
  have h4: "O_WRONLY AND O_ANYWRITE \<noteq> 0"
    by (simp add: O_WRONLY_def O_ANYWRITE_def)
  have h5: "\<not> unix_Access_W readOnlyNative []
      (Join [Workspace (dirs (exGpf [''vendor''])), ''a.go''])"
    unfolding j1 by (simp add: readOnlyNative_def traceNative_def)
  have h6: "\<not> HasPrefix ''lib/a.go'' (GoPkgPrefix (cfg (exGpf [''vendor''])) @ ''/'')"
    by (simp add: ex_simps)
  show ?thesis
    using h1 permission_error_falls_through [OF h1 h2 h3 h4 h5 h6] by (simp add: j1 j2)
qed

text \<open>
  Claim C4 as stated fails: the workspace file exists and is not writable, the request
  asks for write access, and the open falls through to the genfiles shadow and succeeds
  there.
\<close>

theorem permission_error_not_authoritative_counterexample:
  "os_Stat readOnlyNative [] ''/w/a.go'' = StatOK (fileInfo ''a.go'') \<and>
   \<not> unix_Access_W readOnlyNative [] ''/w/a.go'' \<and>
   O_WRONLY AND O_ANYWRITE \<noteq> 0 \<and>
   Open (exGpf [''vendor'']) readOnlyNative [] ''src/a.go'' O_WRONLY =
     (Some (LoopbackFile ''/w/bazel-genfiles/a.go''), OK)"
  by (simp add: ex_simps file_simps readOnlyNative_def)

subsection \<open>Mutations\<close>

lemma prefix_not_child: "\<not> HasPrefix pfx (pfx @ ''/'')"
proof
  assume "HasPrefix pfx (pfx @ ''/'')"
  then have "length (take (length (pfx @ ''/'')) pfx) = length (pfx @ ''/'')"
    by (simp add: HasPrefix_def)
  then show False by simp
qed

lemma Unlink_third_party_status:
  "fst (unlinkVendors gpf os name vs s) = OK \<or> fst (unlinkVendors gpf os name vs s) = ENOSYS"
  by (induction vs arbitrary: name s) (simp_all add: Let_def case_prod_beta)

text \<open>
  Claim C5, as amended. For a path that is not below the first-party prefix: with no
  vendor root configured, \<open>Mkdir\<close>, \<open>Rmdir\<close>, \<open>Create\<close> and \<open>Unlink\<close> fail at
  once and leave the store as it is; otherwise \<open>Mkdir\<close>, \<open>Rmdir\<close> and \<open>Create\<close>
  make their one native call on the path under the first vendor root. \<open>Unlink\<close> makes
  its first removal on the path under the first vendor root; when that removal succeeds it
  is the only one and the result is \<open>OK\<close>, and with a single vendor root its failure
  gives \<open>ENOSYS\<close>. \<open>Unlink\<close> on such a path returns \<open>OK\<close> or \<open>ENOSYS\<close>.
  Nothing is said of what \<open>Unlink\<close> does after a failed first removal when more
  vendor roots are configured.
\<close>

theorem third_party_mutation_target:
  assumes "\<not> HasPrefix name (GoPkgPrefix (cfg gpf) @ ''/'')"
  shows "(case Vendors (cfg gpf) of
            [] \<Rightarrow>
              Mkdir gpf os name mode s = (ENOENT, s) \<and>
              Rmdir gpf os name s = (ENOENT, s) \<and>
              Create gpf os name flags mode s = ((None, EIO), s) \<and>
              Unlink gpf os name s = (ENOSYS, s)
          | v # vs \<Rightarrow>
              Mkdir gpf os name mode s =
                (if fst (os_MkdirAll os (Join [Workspace (dirs gpf), v, name]) mode s)
                 then OK else ENOENT,
                 snd (os_MkdirAll os (Join [Workspace (dirs gpf), v, name]) mode s)) \<and>
              Rmdir gpf os name s =
                (if fst (os_RemoveAll os (Join [Workspace (dirs gpf), v, name]) s)
                 then OK else ENOENT,
                 snd (os_RemoveAll os (Join [Workspace (dirs gpf), v, name]) s)) \<and>
              Create gpf os name flags mode s =
                createAt os (Join [Workspace (dirs gpf), v, name]) mode s \<and>
              (fst (os_Remove os (Join [Workspace (dirs gpf), v, name]) s) \<longrightarrow>
                 Unlink gpf os name s =
                   (OK, snd (os_Remove os (Join [Workspace (dirs gpf), v, name]) s))) \<and>
              (vs = [] \<and> \<not> fst (os_Remove os (Join [Workspace (dirs gpf), v, name]) s) \<longrightarrow>
                 Unlink gpf os name s =
                   (ENOSYS, snd (os_Remove os (Join [Workspace (dirs gpf), v, name]) s)))) \<and>
         (fst (Unlink gpf os name s) = OK \<or> fst (Unlink gpf os name s) = ENOSYS)"
proof -
  have u: "Unlink gpf os name s = unlinkVendors gpf os name (Vendors (cfg gpf)) s"
    using assms by (simp add: Unlink_def pathSeparator_def)
  have 2: "fst (Unlink gpf os name s) = OK \<or> fst (Unlink gpf os name s) = ENOSYS"
    unfolding u by (rule Unlink_third_party_status)
  have 1: "(case Vendors (cfg gpf) of
            [] \<Rightarrow>
              Mkdir gpf os name mode s = (ENOENT, s) \<and>
              Rmdir gpf os name s = (ENOENT, s) \<and>
              Create gpf os name flags mode s = ((None, EIO), s) \<and>
              Unlink gpf os name s = (ENOSYS, s)
          | v # vs \<Rightarrow>
              Mkdir gpf os name mode s =
                (if fst (os_MkdirAll os (Join [Workspace (dirs gpf), v, name]) mode s)
                 then OK else ENOENT,
                 snd (os_MkdirAll os (Join [Workspace (dirs gpf), v, name]) mode s)) \<and>
              Rmdir gpf os name s =
                (if fst (os_RemoveAll os (Join [Workspace (dirs gpf), v, name]) s)
                 then OK else ENOENT,
                 snd (os_RemoveAll os (Join [Workspace (dirs gpf), v, name]) s)) \<and>
              Create gpf os name flags mode s =
                createAt os (Join [Workspace (dirs gpf), v, name]) mode s \<and>
              (fst (os_Remove os (Join [Workspace (dirs gpf), v, name]) s) \<longrightarrow>
                 Unlink gpf os name s =
                   (OK, snd (os_Remove os (Join [Workspace (dirs gpf), v, name]) s))) \<and>
              (vs = [] \<and> \<not> fst (os_Remove os (Join [Workspace (dirs gpf), v, name]) s) \<longrightarrow>
                 Unlink gpf os name s =
                   (ENOSYS, snd (os_Remove os (Join [Workspace (dirs gpf), v, name]) s))))"
  proof (cases "Vendors (cfg gpf)")
    case Nil
    then show ?thesis
      using assms
      by (simp add: u Mkdir_def Rmdir_def Create_def mkThirdPartyChildDir_def
          rmThirdPartyChildDir_def createThirdPartyChildFile_def pathSeparator_def)
  next
    case (Cons v vs)
    then show ?thesis
      using assms
      by (simp add: u Mkdir_def Rmdir_def Create_def mkThirdPartyChildDir_def
          rmThirdPartyChildDir_def createThirdPartyChildFile_def pathSeparator_def
          unlinkUnderlyingFile_def Let_def case_prod_beta)
  qed
  show ?thesis using 1 2 by (rule conjI)
qed

lemmas mut_simps = Mkdir_def Rmdir_def Create_def Unlink_def mkThirdPartyChildDir_def
  rmThirdPartyChildDir_def createThirdPartyChildFile_def mkFirstPartyChildDir_def
  rmFirstPartyChildDir_def createFirstPartyChildFile_def createAt_def
  unlinkUnderlyingFile_def os_RemoveAll_def Let_def

text \<open>With two vendors and every call succeeding, with no vendor, and with one vendor
  and every call failing.\<close>

theorem third_party_mutation_target_witness:
  "\<not> HasPrefix ''lib/x'' (GoPkgPrefix (cfg (exGpf [''vA'', ''vB''])) @ ''/'') \<and>
   Mkdir (exGpf [''vA'', ''vB'']) allMutableNative ''lib/x'' 0 [] =
     (OK, [SysMkdirAll ''/w/vA/lib/x'' 0]) \<and>
   Rmdir (exGpf [''vA'', ''vB'']) allMutableNative ''lib/x'' [] =
     (OK, [SysRemoveAll ''/w/vA/lib/x'']) \<and>
   Create (exGpf [''vA'', ''vB'']) allMutableNative ''lib/x'' 0 0 [] =
     ((Some (LoopbackFile ''/w/vA/lib/x''), OK),
      [SysCreate ''/w/vA/lib/x'', SysChmod ''/w/vA/lib/x'' 0]) \<and>
   Unlink (exGpf [''vA'', ''vB'']) allMutableNative ''lib/x'' [] =
     (OK, [SysRemove ''/w/vA/lib/x'']) \<and>
   Mkdir (exGpf []) allMutableNative ''lib/x'' 0 [] = (ENOENT, []) \<and>
   Unlink (exGpf []) allMutableNative ''lib/x'' [] = (ENOSYS, []) \<and>
   Unlink (exGpf [''vendor'']) emptyNative ''lib/x'' [] =
     (ENOSYS, [SysRemove ''/w/vendor/lib/x''])"
proof -
  have h0: "\<not> HasPrefix ''lib/x'' (GoPkgPrefix (cfg (exGpf [])) @ ''/'')"
    by (simp add: ex_simps)
  have v0: "Vendors (cfg (exGpf [])) = []"
    by (simp add: exGpf_def)
  note t0 = third_party_mutation_target [OF h0, where os = allMutableNative and s = "[]"
      and mode = 0 and flags = 0, unfolded v0 list.case]
  have m0: "Mkdir (exGpf []) allMutableNative ''lib/x'' 0 [] = (ENOENT, [])"
    using t0 by simp
  have u0: "Unlink (exGpf []) allMutableNative ''lib/x'' [] = (ENOSYS, [])"
    using t0 by simp
  have h1: "\<not> HasPrefix ''lib/x'' (GoPkgPrefix (cfg (exGpf [''vendor''])) @ ''/'')"
    by (simp add: ex_simps)
  have v1: "Vendors (cfg (exGpf [''vendor''])) = [''vendor'']"
    by (simp add: exGpf_def)
  have j1: "Join [Workspace (dirs (exGpf [''vendor''])), ''vendor'', ''lib/x''] =
      ''/w/vendor/lib/x''"
    by (simp add: ex_simps)
  have u1: "Unlink (exGpf [''vendor'']) emptyNative ''lib/x'' [] =
     (ENOSYS, [SysRemove ''/w/vendor/lib/x''])"
    using third_party_mutation_target [OF h1, where os = emptyNative and s = "[]"
      and mode = 0 and flags = 0, unfolded v1 list.case j1]
    by (simp add: emptyNative_def traceNative_def)
  have h: "\<not> HasPrefix ''lib/x'' (GoPkgPrefix (cfg (exGpf [''vA'', ''vB''])) @ ''/'')"
    by (simp add: ex_simps)
  have v: "Vendors (cfg (exGpf [''vA'', ''vB''])) = [''vA'', ''vB'']"
    by (simp add: exGpf_def)
  have j: "Join [Workspace (dirs (exGpf [''vA'', ''vB''])), ''vA'', ''lib/x''] = ''/w/vA/lib/x''"
    by (simp add: ex_simps)
  note t = third_party_mutation_target [OF h, where os = allMutableNative and s = "[]"
      and mode = 0 and flags = 0, unfolded v list.case j]
  have "Mkdir (exGpf [''vA'', ''vB'']) allMutableNative ''lib/x'' 0 [] =
     (OK, [SysMkdirAll ''/w/vA/lib/x'' 0]) \<and>
   Rmdir (exGpf [''vA'', ''vB'']) allMutableNative ''lib/x'' [] =
     (OK, [SysRemoveAll ''/w/vA/lib/x'']) \<and>
   Create (exGpf [''vA'', ''vB'']) allMutableNative ''lib/x'' 0 0 [] =
     ((Some (LoopbackFile ''/w/vA/lib/x''), OK),
      [SysCreate ''/w/vA/lib/x'', SysChmod ''/w/vA/lib/x'' 0]) \<and>
   Unlink (exGpf [''vA'', ''vB'']) allMutableNative ''lib/x'' [] =
     (OK, [SysRemove ''/w/vA/lib/x''])"
    using t by (simp add: allMutableNative_def traceNative_def os_RemoveAll_def createAt_def)
  with h m0 u0 u1 show ?thesis by simp
qed

text \<open>
  Claim C5 as stated fails for \<open>Unlink\<close>: with two vendors, when the removal under the
  first fails a second removal is made under the second vendor root, and its success is
  the result.
\<close>

theorem unlink_searches_vendors_counterexample:
  "\<not> HasPrefix ''lib/f'' (GoPkgPrefix (cfg (exGpf [''vA'', ''vB''])) @ ''/'') \<and>
   Unlink (exGpf [''vA'', ''vB'']) secondVendorNative ''lib/f'' [] =
     (OK, [SysRemove ''/w/vA/lib/f'', SysRemove ''/w/vB/w/vA/lib/f''])"
  by (simp add: ex_simps mut_simps secondVendorNative_def)

text \<open>
  Claim C10, as amended. \<open>Mkdir\<close>, \<open>Rmdir\<close>, \<open>Create\<close> and \<open>Unlink\<close> take their
  first-party branch only for a path that starts with the prefix followed by the
  separator: any other path takes the third-party branch. The prefix itself is such a
  path. With no vendor root configured the four operations on it fail at once; otherwise
  \<open>Mkdir\<close>, \<open>Rmdir\<close> and \<open>Create\<close> on it make their one native call on the path
  of that name under the first vendor root, not under the workspace root, and
  \<open>Unlink\<close> makes its first removal there, which is its only one when it succeeds.
  Nothing is said of what \<open>Unlink\<close> does after a failed first removal.
\<close>

theorem prefix_path_is_third_party:
  assumes "\<not> HasPrefix name (GoPkgPrefix (cfg gpf) @ ''/'')"
  shows "Mkdir gpf os name mode s = mkThirdPartyChildDir gpf os name mode s \<and>
         Rmdir gpf os name s = rmThirdPartyChildDir gpf os name s \<and>
         Create gpf os name flags mode s = createThirdPartyChildFile gpf os name flags mode s \<and>
         Unlink gpf os name s = unlinkVendors gpf os name (Vendors (cfg gpf)) s \<and>
         \<not> HasPrefix (GoPkgPrefix (cfg gpf)) (GoPkgPrefix (cfg gpf) @ ''/'') \<and>
         (case Vendors (cfg gpf) of
            [] \<Rightarrow>
              Mkdir gpf os (GoPkgPrefix (cfg gpf)) mode s = (ENOENT, s) \<and>
              Rmdir gpf os (GoPkgPrefix (cfg gpf)) s = (ENOENT, s) \<and>
              Create gpf os (GoPkgPrefix (cfg gpf)) flags mode s = ((None, EIO), s) \<and>
              Unlink gpf os (GoPkgPrefix (cfg gpf)) s = (ENOSYS, s)
          | v # vs \<Rightarrow>
              Mkdir gpf os (GoPkgPrefix (cfg gpf)) mode s =
                (if fst (os_MkdirAll os
                           (Join [Workspace (dirs gpf), v, GoPkgPrefix (cfg gpf)]) mode s)
                 then OK else ENOENT,
                 snd (os_MkdirAll os
                        (Join [Workspace (dirs gpf), v, GoPkgPrefix (cfg gpf)]) mode s)) \<and>
              Rmdir gpf os (GoPkgPrefix (cfg gpf)) s =
                (if fst (os_RemoveAll os
                           (Join [Workspace (dirs gpf), v, GoPkgPrefix (cfg gpf)]) s)
                 then OK else ENOENT,
                 snd (os_RemoveAll os
                        (Join [Workspace (dirs gpf), v, GoPkgPrefix (cfg gpf)]) s)) \<and>
              Create gpf os (GoPkgPrefix (cfg gpf)) flags mode s =
                createAt os (Join [Workspace (dirs gpf), v, GoPkgPrefix (cfg gpf)]) mode s \<and>
              (fst (os_Remove os (Join [Workspace (dirs gpf), v, GoPkgPrefix (cfg gpf)]) s) \<longrightarrow>
                 Unlink gpf os (GoPkgPrefix (cfg gpf)) s =
                   (OK, snd (os_Remove os
                               (Join [Workspace (dirs gpf), v, GoPkgPrefix (cfg gpf)]) s))))"
proof -
  have n: "\<not> HasPrefix (GoPkgPrefix (cfg gpf)) (GoPkgPrefix (cfg gpf) @ ''/'')"
    by (rule prefix_not_child)
  have 1: "Mkdir gpf os name mode s = mkThirdPartyChildDir gpf os name mode s"
    using assms by (simp add: Mkdir_def)
  have 2: "Rmdir gpf os name s = rmThirdPartyChildDir gpf os name s"
    using assms by (simp add: Rmdir_def)
  have 3: "Create gpf os name flags mode s = createThirdPartyChildFile gpf os name flags mode s"
    using assms by (simp add: Create_def pathSeparator_def)
  have 4: "Unlink gpf os name s = unlinkVendors gpf os name (Vendors (cfg gpf)) s"
    using assms by (simp add: Unlink_def pathSeparator_def)
  have 5: "(case Vendors (cfg gpf) of
            [] \<Rightarrow>
              Mkdir gpf os (GoPkgPrefix (cfg gpf)) mode s = (ENOENT, s) \<and>
              Rmdir gpf os (GoPkgPrefix (cfg gpf)) s = (ENOENT, s) \<and>
              Create gpf os (GoPkgPrefix (cfg gpf)) flags mode s = ((None, EIO), s) \<and>
              Unlink gpf os (GoPkgPrefix (cfg gpf)) s = (ENOSYS, s)
          | v # vs \<Rightarrow>
              Mkdir gpf os (GoPkgPrefix (cfg gpf)) mode s =
                (if fst (os_MkdirAll os
                           (Join [Workspace (dirs gpf), v, GoPkgPrefix (cfg gpf)]) mode s)
                 then OK else ENOENT,
                 snd (os_MkdirAll os
                        (Join [Workspace (dirs gpf), v, GoPkgPrefix (cfg gpf)]) mode s)) \<and>
              Rmdir gpf os (GoPkgPrefix (cfg gpf)) s =
                (if fst (os_RemoveAll os
                           (Join [Workspace (dirs gpf), v, GoPkgPrefix (cfg gpf)]) s)
                 then OK else ENOENT,
                 snd (os_RemoveAll os
                        (Join [Workspace (dirs gpf), v, GoPkgPrefix (cfg gpf)]) s)) \<and>
              Create gpf os (GoPkgPrefix (cfg gpf)) flags mode s =
                createAt os (Join [Workspace (dirs gpf), v, GoPkgPrefix (cfg gpf)]) mode s \<and>
              (fst (os_Remove os (Join [Workspace (dirs gpf), v, GoPkgPrefix (cfg gpf)]) s) \<longrightarrow>
                 Unlink gpf os (GoPkgPrefix (cfg gpf)) s =
                   (OK, snd (os_Remove os
                               (Join [Workspace (dirs gpf), v, GoPkgPrefix (cfg gpf)]) s))))"
  proof (cases "Vendors (cfg gpf)")
    case Nil
    then show ?thesis
      using n
      by (simp add: Mkdir_def Rmdir_def Create_def Unlink_def mkThirdPartyChildDir_def
          rmThirdPartyChildDir_def createThirdPartyChildFile_def pathSeparator_def)
  next
    case (Cons v vs)
    then show ?thesis
      using n
      by (simp add: Mkdir_def Rmdir_def Create_def Unlink_def mkThirdPartyChildDir_def
          rmThirdPartyChildDir_def createThirdPartyChildFile_def pathSeparator_def
          unlinkUnderlyingFile_def Let_def case_prod_beta)
  qed
  show ?thesis by (intro conjI 1 2 3 4 n 5)
qed

theorem prefix_path_is_third_party_witness:
  "\<not> HasPrefix ''srcx'' (GoPkgPrefix (cfg (exGpf [''vendor''])) @ ''/'') \<and>
   Mkdir (exGpf [''vendor'']) allMutableNative ''srcx'' 0 [] =
     mkThirdPartyChildDir (exGpf [''vendor'']) allMutableNative ''srcx'' 0 [] \<and>
   Mkdir (exGpf [''vendor'']) allMutableNative ''src'' 0 [] =
     (OK, [SysMkdirAll ''/w/vendor/src'' 0]) \<and>
   Rmdir (exGpf [''vendor'']) allMutableNative ''src'' [] =
     (OK, [SysRemoveAll ''/w/vendor/src'']) \<and>
   Create (exGpf [''vendor'']) allMutableNative ''src'' 0 0 [] =
     ((Some (LoopbackFile ''/w/vendor/src''), OK),
      [SysCreate ''/w/vendor/src'', SysChmod ''/w/vendor/src'' 0]) \<and>
   Unlink (exGpf [''vendor'']) allMutableNative ''src'' [] =
     (OK, [SysRemove ''/w/vendor/src'']) \<and>
   Mkdir (exGpf []) allMutableNative ''src'' 0 [] = (ENOENT, [])"
proof -
  have h: "\<not> HasPrefix ''srcx'' (GoPkgPrefix (cfg (exGpf [''vendor''])) @ ''/'')"
    by (simp add: ex_simps)
  have h0: "\<not> HasPrefix ''srcx'' (GoPkgPrefix (cfg (exGpf [])) @ ''/'')"
    by (simp add: ex_simps)
  have v: "Vendors (cfg (exGpf [''vendor''])) = [''vendor'']"
    and v0: "Vendors (cfg (exGpf [])) = []"
    by (simp_all add: exGpf_def)
  have p: "GoPkgPrefix (cfg (exGpf [''vendor''])) = ''src''"
    and p0: "GoPkgPrefix (cfg (exGpf [])) = ''src''"
    by (simp_all add: exGpf_def)
  have j: "Join [Workspace (dirs (exGpf [''vendor''])), ''vendor'', ''src''] = ''/w/vendor/src''"
    by (simp add: ex_simps)
  note t = prefix_path_is_third_party [OF h, where os = allMutableNative and s = "[]"
      and mode = 0 and flags = 0, unfolded v list.case p j]
  note t0 = prefix_path_is_third_party [OF h0, where os = allMutableNative and s = "[]"
      and mode = 0 and flags = 0, unfolded v0 list.case p0]
  have r: "Mkdir (exGpf [''vendor'']) allMutableNative ''srcx'' 0 [] =
     mkThirdPartyChildDir (exGpf [''vendor'']) allMutableNative ''srcx'' 0 []"
    using t by blast
  have m0: "Mkdir (exGpf []) allMutableNative ''src'' 0 [] = (ENOENT, [])"
    using t0 by blast
  have "Mkdir (exGpf [''vendor'']) allMutableNative ''src'' 0 [] =
     (OK, [SysMkdirAll ''/w/vendor/src'' 0]) \<and>
   Rmdir (exGpf [''vendor'']) allMutableNative ''src'' [] =
     (OK, [SysRemoveAll ''/w/vendor/src'']) \<and>
   Create (exGpf [''vendor'']) allMutableNative ''src'' 0 0 [] =
     ((Some (LoopbackFile ''/w/vendor/src''), OK),
      [SysCreate ''/w/vendor/src'', SysChmod ''/w/vendor/src'' 0]) \<and>
   Unlink (exGpf [''vendor'']) allMutableNative ''src'' [] =
     (OK, [SysRemove ''/w/vendor/src''])"
    using t by (simp add: allMutableNative_def traceNative_def os_RemoveAll_def createAt_def)
  with h r m0 show ?thesis by blast
qed

text \<open>
  Claim C10 as stated fails for \<open>Unlink\<close>: with vendors \<open>vA\<close> and \<open>vB\<close>, when the
  removal of \<open>/w/vA/src\<close> fails, \<open>Unlink\<close> of the prefix goes on and removes
  \<open>/w/vB/w/vA/src\<close>, a path that is not under the first vendor root.
\<close>

theorem unlink_prefix_second_vendor_counterexample:
  "Unlink (exGpf [''vA'', ''vB'']) secondVendorPrefixNative
     (GoPkgPrefix (cfg (exGpf [''vA'', ''vB'']))) [] =
     (OK, [SysRemove ''/w/vA/src'', SysRemove ''/w/vB/w/vA/src''])"
  by (simp add: ex_simps mut_simps secondVendorPrefixNative_def)

text \<open>
  Claim C9, as amended. For a first-party path below the prefix whose backing workspace
  directory is absent, \<open>Rmdir\<close> reports success and leaves the store as it is, since
  \<open>os.RemoveAll\<close> returns no error for a path that does not exist; the same request
  made again gives the same result.
\<close>

theorem rmdir_absent_succeeds:
  assumes "classify (cfg gpf) p = FirstPartyChild rel"
    and "path_absent os s (Join [Workspace (dirs gpf), rel])"
  shows "Rmdir gpf os p s = (OK, s) \<and> Rmdir gpf os p (snd (Rmdir gpf os p s)) = (OK, s)"
proof -
  have a: "HasPrefix p (GoPkgPrefix (cfg gpf) @ ''/'')"
    and b: "rel = drop (length (GoPkgPrefix (cfg gpf) @ ''/'')) p"
    using assms(1) by (simp_all add: classify_FirstPartyChild)
  have "Rmdir gpf os p s = (OK, s)"
    using a b [symmetric] assms(2)
    by (simp add: Rmdir_def rmFirstPartyChildDir_def os_RemoveAll_def)
  then show ?thesis by simp
qed

theorem rmdir_absent_succeeds_witness:
  "classify (cfg (exGpf [''vendor''])) ''src/gone'' = FirstPartyChild ''gone'' \<and>
   path_absent emptyNative [] ''/w/gone'' \<and>
   Rmdir (exGpf [''vendor'']) emptyNative ''src/gone'' [] = (OK, []) \<and>
   Rmdir (exGpf [''vendor'']) emptyNative ''src/gone''
     (snd (Rmdir (exGpf [''vendor'']) emptyNative ''src/gone'' [])) = (OK, [])"
proof -
  have h1: "classify (cfg (exGpf [''vendor''])) ''src/gone'' = FirstPartyChild ''gone''"
    by (simp add: ex_simps)
  have j: "Join [Workspace (dirs (exGpf [''vendor''])), ''gone''] = ''/w/gone''"
    by (simp add: ex_simps)
  have h2: "path_absent emptyNative [] (Join [Workspace (dirs (exGpf [''vendor''])), ''gone''])"
    by (simp add: emptyNative_def traceNative_def)
  show ?thesis
    using h1 h2 rmdir_absent_succeeds [OF h1 h2] by (simp add: j)
qed

text \<open>
  Claim C9 as stated fails: on the empty store the directory behind \<open>src/gone\<close> is
  absent, and \<open>Rmdir\<close> returns \<open>OK\<close>, not an error.
\<close>

theorem rmdir_absent_reports_success_counterexample:
  "classify (cfg (exGpf [''vendor''])) ''src/gone'' = FirstPartyChild ''gone'' \<and>
   os_Stat emptyNative [] ''/w/gone'' = StatNotExist \<and>
   path_absent emptyNative [] ''/w/gone'' \<and>
   Rmdir (exGpf [''vendor'']) emptyNative ''src/gone'' [] = (OK, [])"
  by (simp add: ex_simps mut_simps emptyNative_def)

text \<open>
  Claim C6 at a failing input. The only file of the store is \<open>/w/vendor/lib/a.go\<close>, and
  \<open>lib/a.go\<close> is renamed to \<open>lib/b.go\<close>. The vendor loop looks for
  \<open>vendor/lib/a.go\<close>, a path without the workspace root, finds no vendor, and the
  native rename is called all the same, from \<open>vendor/lib/a.go\<close> to the virtual path
  \<open>lib/b.go\<close>.
\<close>

theorem rename_vendor_wrong_paths:
  "\<not> HasPrefix ''lib/a.go'' (GoPkgPrefix (cfg (exGpf [''vendor''])) @ pathSeparator) \<and>
   os_Stat vendoredFileNative [] ''/w/vendor/lib/a.go'' = StatOK (fileInfo ''a.go'') \<and>
   os_Stat vendoredFileNative [] ''vendor/lib/a.go'' = StatNotExist \<and>
   renameVendors vendoredFileNative [] [''vendor''] ''lib/a.go'' ''lib/b.go'' =
     (''vendor/lib/a.go'', ''lib/b.go'') \<and>
   Rename (exGpf [''vendor'']) vendoredFileNative ''lib/a.go'' ''lib/b.go'' [] =
     Inr (ENOSYS, [SysRename ''vendor/lib/a.go'' ''lib/b.go''])"
  by (simp add: ex_simps Rename_def renameAt_def vendoredFileNative_def)

end
